theory Spec2Isabelle
  imports Complex_Main "HOL-Library.Sublist"
begin

section \<open>Numbers of the scoring layer\<close>

text \<open>
  The scores and parameter values of \<open>pid_interfaces.py\<close> are double precision
  numbers. A value is a finite number, one of the two infinities, or NaN. Comparisons
  of doubles are exact, and so are the sums the scoring forms: \<open>check_prior\<close> adds
  contributions that are \<open>0.0\<close> or \<open>inf\<close>, and a finite total \<open>0.0\<close> added to a
  likelihood gives that likelihood. These are \<open>fl_lt\<close>, \<open>fl_gt\<close> and
  \<open>fl_add\<close>.

  The other operations below (\<open>fl_mul\<close>, \<open>fl_div\<close>, \<open>fl_sub\<close>, \<open>fl_sq\<close>,
  \<open>fl_exp\<close>) are arithmetic without rounding, overflow or exceptions. The code's
  arithmetic is not that: it is a parameter of the model (the record \<open>arith\<close>
  further down), and these operations only make up one sample instance of it.
\<close>

datatype fl = Fin real | PInf | MInf | NaN

fun isfinite :: "fl \<Rightarrow> bool" where
  "isfinite (Fin _) = True"
| "isfinite _ = False"

fun fl_neg :: "fl \<Rightarrow> fl" where
  "fl_neg (Fin a) = Fin (- a)"
| "fl_neg PInf = MInf"
| "fl_neg MInf = PInf"
| "fl_neg NaN = NaN"

fun fl_add :: "fl \<Rightarrow> fl \<Rightarrow> fl" where
  "fl_add (Fin a) (Fin b) = Fin (a + b)"
| "fl_add NaN _ = NaN"
| "fl_add _ NaN = NaN"
| "fl_add PInf MInf = NaN"
| "fl_add MInf PInf = NaN"
| "fl_add PInf _ = PInf"
| "fl_add _ PInf = PInf"
| "fl_add MInf _ = MInf"
| "fl_add _ MInf = MInf"

definition fl_sub :: "fl \<Rightarrow> fl \<Rightarrow> fl" where
  "fl_sub a b = fl_add a (fl_neg b)"

definition signed_inf :: "bool \<Rightarrow> fl" where
  "signed_inf positive = (if positive then PInf else MInf)"

fun fl_mul :: "fl \<Rightarrow> fl \<Rightarrow> fl" where
  "fl_mul (Fin a) (Fin b) = Fin (a * b)"
| "fl_mul NaN _ = NaN"
| "fl_mul _ NaN = NaN"
| "fl_mul (Fin a) PInf = (if a = 0 then NaN else signed_inf (0 < a))"
| "fl_mul (Fin a) MInf = (if a = 0 then NaN else signed_inf (a < 0))"
| "fl_mul PInf (Fin b) = (if b = 0 then NaN else signed_inf (0 < b))"
| "fl_mul MInf (Fin b) = (if b = 0 then NaN else signed_inf (b < 0))"
| "fl_mul PInf PInf = PInf"
| "fl_mul PInf MInf = MInf"
| "fl_mul MInf PInf = MInf"
| "fl_mul MInf MInf = PInf"

fun fl_div :: "fl \<Rightarrow> fl \<Rightarrow> fl" where
  "fl_div (Fin a) (Fin b) =
     (if b = 0 then (if a = 0 then NaN else signed_inf (0 < a)) else Fin (a / b))"
| "fl_div NaN _ = NaN"
| "fl_div _ NaN = NaN"
| "fl_div (Fin a) PInf = Fin 0"
| "fl_div (Fin a) MInf = Fin 0"
| "fl_div PInf (Fin b) = signed_inf (0 \<le> b)"
| "fl_div MInf (Fin b) = signed_inf (b < 0)"
| "fl_div PInf PInf = NaN"
| "fl_div PInf MInf = NaN"
| "fl_div MInf PInf = NaN"
| "fl_div MInf MInf = NaN"

definition fl_sq :: "fl \<Rightarrow> fl" where
  "fl_sq a = fl_mul a a"

fun fl_exp :: "fl \<Rightarrow> fl" where
  "fl_exp (Fin a) = Fin (exp a)"
| "fl_exp PInf = PInf"
| "fl_exp MInf = Fin 0"
| "fl_exp NaN = NaN"

text \<open>Comparisons: every comparison with NaN is false.\<close>

fun fl_lt :: "fl \<Rightarrow> fl \<Rightarrow> bool" where
  "fl_lt (Fin a) (Fin b) = (a < b)"
| "fl_lt NaN _ = False"
| "fl_lt _ NaN = False"
| "fl_lt MInf MInf = False"
| "fl_lt MInf _ = True"
| "fl_lt PInf _ = False"
| "fl_lt _ PInf = True"
| "fl_lt _ MInf = False"

definition fl_gt :: "fl \<Rightarrow> fl \<Rightarrow> bool" where
  "fl_gt a b = fl_lt b a"

section \<open>Python values, errors, dictionaries\<close>

text \<open>
  A prior dictionary entry is a Python list such as \<open>['uniform', 0, 1]\<close>: its
  elements are strings or numbers.
\<close>

datatype pyval = Str string | Num fl

datatype error =
    KeyError
  | IndexError
  | TypeError
  | OverflowError
  | ZeroDivisionError
  | FloatingPointError
  | ValueError string
  | EngineError string

text \<open>
  \<open>param_value > bound\<close> and \<open>param_value < bound\<close>, where \<open>param_value\<close> is a
  number: comparing a number with a string raises \<open>TypeError\<close>.
\<close>

fun py_gt :: "fl \<Rightarrow> pyval \<Rightarrow> error + bool" where
  "py_gt v (Num b) = Inr (fl_gt v b)"
| "py_gt v (Str _) = Inl TypeError"

fun py_lt :: "fl \<Rightarrow> pyval \<Rightarrow> error + bool" where
  "py_lt v (Num b) = Inr (fl_lt v b)"
| "py_lt v (Str _) = Inl TypeError"

text \<open>
  \<open>params_dict\<close> is a Python dict: keys are unique and iteration follows the order
  of first insertion. \<open>dict_set d k v\<close> is \<open>d[k] = v\<close>.
\<close>

type_synonym 'v pydict = "(string \<times> 'v) list"

fun dict_set :: "'v pydict \<Rightarrow> string \<Rightarrow> 'v \<Rightarrow> 'v pydict" where
  "dict_set [] k v = [(k, v)]"
| "dict_set ((k', v') # d) k v =
     (if k' = k then (k', v) # d else (k', v') # dict_set d k v)"

text \<open>
  The loop \<open>for key, p in zip(self.params_to_estimate, params_values):
  params_dict[key] = p\<close>, starting from the empty dict. Python's \<open>zip\<close> stops at the
  end of the shorter sequence, as \<^const>\<open>zip\<close> does.
\<close>

definition make_params_dict :: "string list \<Rightarrow> fl list \<Rightarrow> fl pydict" where
  "make_params_dict names params_values =
     foldl (\<lambda>d (key, p). dict_set d key p) [] (zip names params_values)"

section \<open>The interface object and its effects\<close>

text \<open>
  What a scoring call does besides returning: it emits warnings and debug prints and it
  calls the likelihood engine (data packaging, construction of the likelihood object,
  \<open>set_init_params\<close>, \<open>py_log_likelihood\<close>). Each such effect is appended to a log
  kept beside the fields of the interface object.
\<close>

datatype 'ic event =
    Warned
  | Printed
  | Packaged nat
  | Constructed "'ic list"
  | ParamsBound "fl pydict"
  | Evaluated

type_synonym prior_dict = "string \<rightharpoonup> pyval list"

record ('m, 'ic) pid =
  params_to_estimate :: "string list"
  M :: 'm
  prior :: "prior_dict option"
  effects :: "'ic event list"

definition emit :: "'ic event \<Rightarrow> ('m, 'ic) pid \<Rightarrow> ('m, 'ic) pid" where
  "emit ev self = self\<lparr>effects := effects self @ [ev]\<rparr>"

text \<open>\<open>PIDInterface.__init__\<close>: the three arguments are stored as they are.\<close>

definition init_pid :: "string list \<Rightarrow> 'm \<Rightarrow> prior_dict option \<Rightarrow> ('m, 'ic) pid" where
  "init_pid names model pr =
     \<lparr>params_to_estimate = names, M = model, prior = pr, effects = []\<rparr>"

section \<open>The arithmetic of the gaussian expression\<close>

text \<open>
  \<open>gaussian_prior\<close> evaluates
  \<open>1/(np.sqrt(2*np.pi) * sigma) * np.exp((-0.5*param_value - mu)**2/sigma**2)\<close>
  in double precision. What each operation returns depends on the platform and on the
  types of its operands: results are rounded; \<open>np.exp\<close> and the numpy operators
  overflow to \<open>inf\<close> (or raise \<open>FloatingPointError\<close> under \<open>np.seterr\<close>);
  Python's float \<open>**\<close> raises \<open>OverflowError\<close> and Python's float \<open>/\<close> raises
  \<open>ZeroDivisionError\<close>. None of this is fixed here: every operation of the
  expression is a field of the record \<open>arith\<close>, one field for each place of the
  expression, and every one may raise. What is proved for every \<open>arith\<close> holds for
  the arithmetic the code runs on. A \<open>RuntimeWarning\<close> that numpy itself prints on
  overflow or division by zero belongs to the operation; the log of effects further down
  records the calls the source makes, \<open>warnings.warn\<close> among them.
\<close>

record arith =
  sqrt_two_pi :: fl
  scale_mul :: "fl \<Rightarrow> fl \<Rightarrow> error + fl"
  scale_div :: "fl \<Rightarrow> fl \<Rightarrow> error + fl"
  half_mul :: "fl \<Rightarrow> fl \<Rightarrow> error + fl"
  centre_sub :: "fl \<Rightarrow> fl \<Rightarrow> error + fl"
  centre_pow :: "fl \<Rightarrow> error + fl"
  sigma_pow :: "fl \<Rightarrow> error + fl"
  ratio_div :: "fl \<Rightarrow> fl \<Rightarrow> error + fl"
  np_exp :: "fl \<Rightarrow> error + fl"
  prob_mul :: "fl \<Rightarrow> fl \<Rightarrow> error + fl"

text \<open>
  The fields, in the order of evaluation: \<open>sqrt_two_pi\<close> is
  \<open>np.sqrt(2*np.pi)\<close>; \<open>scale_mul\<close> is \<open>np.sqrt(2*np.pi) * sigma\<close>;
  \<open>scale_div\<close> is \<open>1/(...)\<close>; \<open>half_mul\<close> is \<open>-0.5*param_value\<close>;
  \<open>centre_sub\<close> is \<open>(...) - mu\<close>; \<open>centre_pow\<close> is \<open>(...)**2\<close>;
  \<open>sigma_pow\<close> is \<open>sigma**2\<close>; \<open>ratio_div\<close> is the quotient of the two
  squares; \<open>np_exp\<close> is \<open>np.exp\<close>; \<open>prob_mul\<close> is the product of the two
  factors. An exception ends the evaluation.
\<close>

definition then_do :: "error + 'a \<Rightarrow> ('a \<Rightarrow> error + 'b) \<Rightarrow> error + 'b" where
  "then_do r f = (case r of Inl e \<Rightarrow> Inl e | Inr x \<Rightarrow> f x)"

section \<open>Prior evaluation\<close>

text \<open>
  \<open>uniform_prior\<close>: the \<open>or\<close> evaluates \<open>param_value > upper_bound\<close> first and
  the second comparison only when the first is false. The rejected case returns
  \<open>np.inf\<close>, positive infinity.
\<close>

definition uniform_prior ::
  "string \<Rightarrow> fl \<Rightarrow> ('m, 'ic) pid \<Rightarrow> (error + fl) \<times> ('m, 'ic) pid" where
  "uniform_prior param_name param_value self =
     (case prior self of
        None \<Rightarrow> (Inl (ValueError ''No prior found''), self)
      | Some prior_dict \<Rightarrow>
          (case prior_dict param_name of
             None \<Rightarrow> (Inl KeyError, self)
           | Some entry \<Rightarrow>
               if length entry \<noteq> 3
               then (Inl (ValueError ''For uniform distribution, the prior dictionary entry must be : [prior_type, lower_bound, upper_bound]''), self)
               else
                 (case py_gt param_value (entry ! 2) of
                    Inl e \<Rightarrow> (Inl e, self)
                  | Inr too_high \<Rightarrow>
                      if too_high then (Inr PInf, self)
                      else
                        (case py_lt param_value (entry ! 1) of
                           Inl e \<Rightarrow> (Inl e, self)
                         | Inr too_low \<Rightarrow>
                             if too_low then (Inr PInf, self) else (Inr (Fin 0), self)))))"

text \<open>
  The value \<open>prob\<close> of \<open>gaussian_prior\<close>, as the source writes it:
  \<open>1/(np.sqrt(2*np.pi) * sigma) * np.exp((-0.5*param_value - mu)**2/sigma**2)\<close>.
  The left factor is evaluated first, then the argument of \<open>np.exp\<close> from the
  inside out, \<open>(...)**2\<close> before \<open>sigma**2\<close>. A string in the place of
  \<open>sigma\<close> or \<open>mu\<close> raises \<open>TypeError\<close> at the first operation that
  meets it.
\<close>

definition gaussian_prob :: "arith \<Rightarrow> fl \<Rightarrow> pyval \<Rightarrow> pyval \<Rightarrow> error + fl" where
  "gaussian_prob ar param_value mu sigma =
     (case sigma of
        Str _ \<Rightarrow> Inl TypeError
      | Num s \<Rightarrow>
          then_do (scale_mul ar (sqrt_two_pi ar) s) (\<lambda>scaled.
          then_do (scale_div ar (Fin 1) scaled) (\<lambda>left_factor.
          then_do (half_mul ar (Fin (- 0.5)) param_value) (\<lambda>halved.
            (case mu of
               Str _ \<Rightarrow> Inl TypeError
             | Num m \<Rightarrow>
                 then_do (centre_sub ar halved m) (\<lambda>centred.
                 then_do (centre_pow ar centred) (\<lambda>numerator.
                 then_do (sigma_pow ar s) (\<lambda>denominator.
                 then_do (ratio_div ar numerator denominator) (\<lambda>exponent.
                 then_do (np_exp ar exponent) (\<lambda>right_factor.
                 prob_mul ar left_factor right_factor))))))))))"

text \<open>
  \<open>gaussian_prior\<close>: an exception of the arithmetic leaves the method at once; the
  warning comes before the comparison with the threshold, which raises \<open>TypeError\<close>
  when the threshold is a string. The rejected case returns \<open>np.inf\<close>.
\<close>

definition gaussian_prior ::
  "arith \<Rightarrow> string \<Rightarrow> fl \<Rightarrow> ('m, 'ic) pid \<Rightarrow> (error + fl) \<times> ('m, 'ic) pid" where
  "gaussian_prior ar param_name param_value self =
     (case prior self of
        None \<Rightarrow> (Inl (ValueError ''No prior found''), self)
      | Some prior_dict \<Rightarrow>
          (case prior_dict param_name of
             None \<Rightarrow> (Inl KeyError, self)
           | Some entry \<Rightarrow>
               if length entry \<noteq> 4
               then (Inl (ValueError ''For Gaussian distribution, the dictionary entry must be : [prior_type, mean, std_dev, probability_threshold]''), self)
               else
                 (case gaussian_prob ar param_value (entry ! 1) (entry ! 2) of
                    Inl e \<Rightarrow> (Inl e, self)
                  | Inr prob \<Rightarrow>
                      let self' = (if fl_gt prob (Fin 1) then emit Warned self else self)
                      in (case py_lt prob (entry ! 3) of
                            Inl e \<Rightarrow> (Inl e, self')
                          | Inr too_low \<Rightarrow>
                              if too_low then (Inr PInf, self') else (Inr (Fin 0), self')))))"

text \<open>
  \<open>check_prior\<close>: the loop over \<open>params_dict.items()\<close> with the running total
  \<open>lp\<close>. \<open>self.prior[key][0]\<close> raises \<open>TypeError\<close> when the prior is \<open>None\<close>,
  \<open>KeyError\<close> when the key is missing and \<open>IndexError\<close> when the entry is
  empty. An exception ends the loop.
\<close>

fun check_prior_loop ::
  "arith \<Rightarrow> fl pydict \<Rightarrow> fl \<Rightarrow> ('m, 'ic) pid \<Rightarrow> (error + fl) \<times> ('m, 'ic) pid" where
  "check_prior_loop ar [] lp self = (Inr lp, self)"
| "check_prior_loop ar ((key, v) # rest) lp self =
     (case prior self of
        None \<Rightarrow> (Inl TypeError, self)
      | Some prior_dict \<Rightarrow>
          (case prior_dict key of
             None \<Rightarrow> (Inl KeyError, self)
           | Some [] \<Rightarrow> (Inl IndexError, self)
           | Some (prior_type # _) \<Rightarrow>
               if prior_type = Str ''uniform'' then
                 (case uniform_prior key v self of
                    (Inl e, self') \<Rightarrow> (Inl e, self')
                  | (Inr c, self') \<Rightarrow> check_prior_loop ar rest (fl_add lp c) self')
               else if prior_type = Str ''gaussian'' then
                 (case gaussian_prior ar key v self of
                    (Inl e, self') \<Rightarrow> (Inl e, self')
                  | (Inr c, self') \<Rightarrow> check_prior_loop ar rest (fl_add lp c) self')
               else (Inl (ValueError ''Prior type undefined.''), self)))"

definition check_prior ::
  "arith \<Rightarrow> fl pydict \<Rightarrow> ('m, 'ic) pid \<Rightarrow> (error + fl) \<times> ('m, 'ic) pid" where
  "check_prior ar params_dict self = check_prior_loop ar params_dict (Fin 0) self"

text \<open>
  The body of that loop up to the addition, for one item: the lookup of the tag and the
  call of the evaluator it names. Its value is the item's contribution to the total.
\<close>

definition contribution ::
  "arith \<Rightarrow> string \<Rightarrow> fl \<Rightarrow> ('m, 'ic) pid \<Rightarrow> (error + fl) \<times> ('m, 'ic) pid" where
  "contribution ar key v self =
     (case prior self of
        None \<Rightarrow> (Inl TypeError, self)
      | Some prior_dict \<Rightarrow>
          (case prior_dict key of
             None \<Rightarrow> (Inl KeyError, self)
           | Some [] \<Rightarrow> (Inl IndexError, self)
           | Some (prior_type # _) \<Rightarrow>
               if prior_type = Str ''uniform'' then uniform_prior key v self
               else if prior_type = Str ''gaussian'' then gaussian_prior ar key v self
               else (Inl (ValueError ''Prior type undefined.''), self)))"

text \<open>
  A recognised, well-formed prior entry: \<open>['uniform', lower, upper]\<close> or
  \<open>['gaussian', mean, std_dev, threshold]\<close> with numbers in the places of the
  distribution parameters; and a prior dictionary that has such an entry for every key
  of a parameter dictionary.
\<close>

fun is_num :: "pyval \<Rightarrow> bool" where
  "is_num (Num _) = True"
| "is_num (Str _) = False"

definition well_formed_entry :: "pyval list \<Rightarrow> bool" where
  "well_formed_entry entry =
     (case entry of
        [tag, lower, upper] \<Rightarrow> tag = Str ''uniform'' \<and> is_num lower \<and> is_num upper
      | [tag, mean, std_dev, threshold] \<Rightarrow>
          tag = Str ''gaussian'' \<and> is_num mean \<and> is_num std_dev \<and> is_num threshold
      | _ \<Rightarrow> False)"

definition well_formed_for :: "prior_dict \<Rightarrow> fl pydict \<Rightarrow> bool" where
  "well_formed_for prior_dict params_dict =
     list_all (\<lambda>(key, v). case prior_dict key of
                              None \<Rightarrow> False
                            | Some entry \<Rightarrow> well_formed_entry entry) params_dict"

text \<open>
  The arithmetic returns a number for every item of a parameter dictionary whose prior
  entry has four elements.
\<close>

definition prob_returns :: "arith \<Rightarrow> prior_dict \<Rightarrow> fl pydict \<Rightarrow> bool" where
  "prob_returns ar prior_dict params_dict =
     list_all (\<lambda>(key, v). case prior_dict key of
                              Some [tag, mean, std_dev, threshold] \<Rightarrow>
                                (case gaussian_prob ar v mean std_dev of
                                   Inl _ \<Rightarrow> False
                                 | Inr _ \<Rightarrow> True)
                            | _ \<Rightarrow> True) params_dict"

section \<open>The likelihood engines\<close>

text \<open>
  \<open>bioscrape.inference\<close> is imported, not defined, by \<open>pid_interfaces.py\<close>: its
  data containers and likelihood classes are parameters here. Every call may raise; a
  likelihood object has a truth value; \<open>set_init_params\<close> changes the likelihood
  object it is called on.
\<close>

datatype ndarray = NDArray (np_shape: "nat list") (np_flat: "real list")

type_synonym timepoints = "real list list"

record ('m, 'ic, 'pk, 'll) stochastic_engine =
  StochasticTrajectories :: "timepoints \<Rightarrow> ndarray \<Rightarrow> string list \<Rightarrow> nat \<Rightarrow> error + 'pk"
  STLL :: "'m \<Rightarrow> 'ic list \<Rightarrow> 'pk \<Rightarrow> nat \<Rightarrow> nat \<Rightarrow> error + 'll"
  stll_bool :: "'ll \<Rightarrow> bool"
  stll_set_init_params :: "'ll \<Rightarrow> fl pydict \<Rightarrow> error + 'll"
  stll_py_log_likelihood :: "'ll \<Rightarrow> error + fl"

record ('m, 'ic, 'pk, 'll) deterministic_engine =
  BulkData :: "timepoints \<Rightarrow> ndarray \<Rightarrow> string list \<Rightarrow> nat \<Rightarrow> error + 'pk"
  DLL :: "'m \<Rightarrow> 'ic list \<Rightarrow> 'pk \<Rightarrow> nat \<Rightarrow> error + 'll"
  dll_bool :: "'ll \<Rightarrow> bool"
  dll_set_init_params :: "'ll \<Rightarrow> fl pydict \<Rightarrow> error + 'll"
  dll_py_log_likelihood :: "'ll \<Rightarrow> error + fl"

text \<open>The four \<open>print\<close> calls of the \<open>debug\<close> branch.\<close>

definition debug_prints :: "bool \<Rightarrow> ('m, 'ic) pid \<Rightarrow> ('m, 'ic) pid" where
  "debug_prints debug self =
     (if debug then emit Printed (emit Printed (emit Printed (emit Printed self))) else self)"

section \<open>Scoring\<close>

text \<open>
  \<open>StochasticInference.get_likelihood_function\<close>. The result is \<open>Some\<close> score, or
  \<open>None\<close> for Python's \<open>None\<close>, which a function returns when its body ends
  without a \<open>return\<close>. \<open>np.shape(data)[0]\<close> raises \<open>IndexError\<close> on data without
  a dimension.
\<close>

definition stochastic_get_likelihood_function ::
  "arith \<Rightarrow> ('m, 'ic, 'pk, 'll) stochastic_engine \<Rightarrow> fl list \<Rightarrow> ndarray \<Rightarrow> timepoints \<Rightarrow>
   string list \<Rightarrow> 'ic list \<Rightarrow> nat \<Rightarrow> nat \<Rightarrow> bool \<Rightarrow> ('m, 'ic) pid \<Rightarrow>
   (error + fl option) \<times> ('m, 'ic) pid" where
  "stochastic_get_likelihood_function ar eng params_values data tps measurements
       initial_conditions norm_order N_simulations debug self =
     (let params_dict = make_params_dict (params_to_estimate self) params_values in
      case check_prior ar params_dict self of
        (Inl e, s1) \<Rightarrow> (Inl e, s1)
      | (Inr lp, s1) \<Rightarrow>
          if \<not> isfinite lp then (Inr (Some MInf), s1)
          else
            (case np_shape data of
               [] \<Rightarrow> (Inl IndexError, s1)
             | N # _ \<Rightarrow>
                 let s2 = emit (Packaged N) (debug_prints debug s1) in
                 (case StochasticTrajectories eng tps data measurements N of
                    Inl e \<Rightarrow> (Inl e, s2)
                  | Inr dataStoch \<Rightarrow>
                      let s3 = emit (Constructed initial_conditions) s2 in
                      (case STLL eng (M self) initial_conditions dataStoch N_simulations norm_order of
                         Inl e \<Rightarrow> (Inl e, s3)
                       | Inr LL_stoch \<Rightarrow>
                           if stll_bool eng LL_stoch then
                             let s4 = emit (ParamsBound params_dict) s3 in
                             (case stll_set_init_params eng LL_stoch params_dict of
                                Inl e \<Rightarrow> (Inl e, s4)
                              | Inr LL_bound \<Rightarrow>
                                  let s5 = emit Evaluated s4 in
                                  (case stll_py_log_likelihood eng LL_bound of
                                     Inl e \<Rightarrow> (Inl e, s5)
                                   | Inr LL_stoch_cost \<Rightarrow>
                                       (Inr (Some (fl_add lp LL_stoch_cost)), s5)))
                           else (Inr None, s3)))))"

text \<open>
  \<open>DeterministicInference.get_likelihood_function\<close>: the same steps without
  \<open>N_simulations\<close>; the debug prints come after the data packaging.
\<close>

definition deterministic_get_likelihood_function ::
  "arith \<Rightarrow> ('m, 'ic, 'pk, 'll) deterministic_engine \<Rightarrow> fl list \<Rightarrow> ndarray \<Rightarrow> timepoints \<Rightarrow>
   string list \<Rightarrow> 'ic list \<Rightarrow> nat \<Rightarrow> bool \<Rightarrow> ('m, 'ic) pid \<Rightarrow>
   (error + fl option) \<times> ('m, 'ic) pid" where
  "deterministic_get_likelihood_function ar eng params_values data tps measurements
       initial_conditions norm_order debug self =
     (let params_dict = make_params_dict (params_to_estimate self) params_values in
      case check_prior ar params_dict self of
        (Inl e, s1) \<Rightarrow> (Inl e, s1)
      | (Inr lp, s1) \<Rightarrow>
          if \<not> isfinite lp then (Inr (Some MInf), s1)
          else
            (case np_shape data of
               [] \<Rightarrow> (Inl IndexError, s1)
             | N # _ \<Rightarrow>
                 let s2 = emit (Packaged N) s1 in
                 (case BulkData eng tps data measurements N of
                    Inl e \<Rightarrow> (Inl e, s2)
                  | Inr dataDet \<Rightarrow>
                      let s3 = emit (Constructed initial_conditions) (debug_prints debug s2) in
                      (case DLL eng (M self) initial_conditions dataDet norm_order of
                         Inl e \<Rightarrow> (Inl e, s3)
                       | Inr LL_det \<Rightarrow>
                           if dll_bool eng LL_det then
                             let s4 = emit (ParamsBound params_dict) s3 in
                             (case dll_set_init_params eng LL_det params_dict of
                                Inl e \<Rightarrow> (Inl e, s4)
                              | Inr LL_bound \<Rightarrow>
                                  let s5 = emit Evaluated s4 in
                                  (case dll_py_log_likelihood eng LL_bound of
                                     Inl e \<Rightarrow> (Inl e, s5)
                                   | Inr LL_det_cost \<Rightarrow>
                                       (Inr (Some (fl_add lp LL_det_cost)), s5)))
                           else (Inr None, s3)))))"

text \<open>The effects that reach the likelihood engine.\<close>

fun engine_event :: "'ic event \<Rightarrow> bool" where
  "engine_event Warned = False"
| "engine_event Printed = False"
| "engine_event _ = True"

text \<open>The interface object after \<open>n\<close> more warnings.\<close>

definition warn_n :: "nat \<Rightarrow> ('m, 'ic) pid \<Rightarrow> ('m, 'ic) pid" where
  "warn_n n self = self\<lparr>effects := effects self @ replicate n Warned\<rparr>"

section \<open>Test doubles and sample configurations\<close>

text \<open>
  A sample arithmetic: exact, so without rounding, overflow or exceptions. It is used
  only to evaluate the examples, at inputs where the doubles of the code fall on the
  same side of every comparison.
\<close>

definition exact_arith :: arith where
  "exact_arith =
     \<lparr>sqrt_two_pi = Fin (sqrt (2 * pi)),
      scale_mul = (\<lambda>a b. Inr (fl_mul a b)),
      scale_div = (\<lambda>a b. Inr (fl_div a b)),
      half_mul = (\<lambda>a b. Inr (fl_mul a b)),
      centre_sub = (\<lambda>a b. Inr (fl_sub a b)),
      centre_pow = (\<lambda>a. Inr (fl_sq a)),
      sigma_pow = (\<lambda>a. Inr (fl_sq a)),
      ratio_div = (\<lambda>a b. Inr (fl_div a b)),
      np_exp = (\<lambda>a. Inr (fl_exp a)),
      prob_mul = (\<lambda>a b. Inr (fl_mul a b))\<rparr>"

text \<open>
  Engines that accept every input: the likelihood object is its own truth value and
  \<open>py_log_likelihood\<close> returns a fixed number.
\<close>

definition stub_stochastic_engine ::
  "bool \<Rightarrow> fl \<Rightarrow> (unit, (string \<times> real) list, unit, bool) stochastic_engine" where
  "stub_stochastic_engine truth ll =
     \<lparr>StochasticTrajectories = (\<lambda>tps data measurements N. Inr ()),
      STLL = (\<lambda>model init_state data N_simulations norm_order. Inr truth),
      stll_bool = (\<lambda>obj. obj),
      stll_set_init_params = (\<lambda>obj params. Inr obj),
      stll_py_log_likelihood = (\<lambda>obj. Inr ll)\<rparr>"

definition stub_deterministic_engine ::
  "bool \<Rightarrow> fl \<Rightarrow> (unit, (string \<times> real) list, unit, bool) deterministic_engine" where
  "stub_deterministic_engine truth ll =
     \<lparr>BulkData = (\<lambda>tps data measurements N. Inr ()),
      DLL = (\<lambda>model init_state data norm_order. Inr truth),
      dll_bool = (\<lambda>obj. obj),
      dll_set_init_params = (\<lambda>obj params. Inr obj),
      dll_py_log_likelihood = (\<lambda>obj. Inr ll)\<rparr>"

text \<open>
  The configuration of the specification's examples: \<open>k1\<close> and \<open>k2\<close>, each with
  the prior \<open>['uniform', 0, 1]\<close>; data of five trajectories.
\<close>

definition unit_box_prior :: prior_dict where
  "unit_box_prior =
     [''k1'' \<mapsto> [Str ''uniform'', Num (Fin 0), Num (Fin 1)],
      ''k2'' \<mapsto> [Str ''uniform'', Num (Fin 0), Num (Fin 1)]]"

definition two_param_pid :: "(unit, (string \<times> real) list) pid" where
  "two_param_pid = init_pid [''k1'', ''k2''] () (Some unit_box_prior)"

definition five_trajectories :: ndarray where
  "five_trajectories = NDArray [5, 2, 1] [0, 1, 0, 1, 0, 1, 0, 1, 0, 1]"

text \<open>
  A parameter \<open>k\<close> with the prior \<open>['gaussian', 0, 1, threshold]\<close>.
\<close>

definition gaussian_pid :: "real \<Rightarrow> (unit, (string \<times> real) list) pid" where
  "gaussian_pid threshold =
     init_pid [''k''] ()
       (Some [''k'' \<mapsto> [Str ''gaussian'', Num (Fin 0), Num (Fin 1), Num (Fin threshold)]])"

text \<open>The same prior with one more entry, for a parameter \<open>k3\<close>.\<close>

definition extended_box_prior :: prior_dict where
  "extended_box_prior =
     unit_box_prior(''k3'' \<mapsto> [Str ''gaussian'', Num (Fin 0), Num (Fin 1), Num (Fin 1)])"

definition three_param_pid :: "(unit, (string \<times> real) list) pid" where
  "three_param_pid = init_pid [''k1'', ''k2'', ''k3''] () (Some extended_box_prior)"

text \<open>Three initial states, for data of five trajectories.\<close>

definition three_initial_conditions :: "(string \<times> real) list list" where
  "three_initial_conditions = [[(''X'', 0)], [(''X'', 1)], [(''X'', 2)]]"

section \<open>The density the specification names\<close>

text \<open>
  The specification's formula for the normal density,
  \<open>exp(-0.5*((value-mean)/std_dev)^2) / (std_dev*sqrt(2\<pi>))\<close>, written from its
  words to be compared with \<^const>\<open>gaussian_prob\<close>.
\<close>

definition standard_gaussian_density :: "real \<Rightarrow> real \<Rightarrow> real \<Rightarrow> real" where
  "standard_gaussian_density v mean std_dev =
     exp (- 0.5 * ((v - mean) / std_dev)\<^sup>2) / (std_dev * sqrt (2 * pi))"

section \<open>What a call leaves behind\<close>

text \<open>
  The prior evaluators change nothing of the interface object but the log, and add
  nothing to the log but warnings. What they return and how often they warn depends on
  the interface object through its prior only.
\<close>

lemma warn_n_0 [simp]: "warn_n 0 self = self"
  by (simp add: warn_n_def)

lemma warn_n_fields [simp]:
  "prior (warn_n n self) = prior self"
  "params_to_estimate (warn_n n self) = params_to_estimate self"
  "M (warn_n n self) = M self"
  "effects (warn_n n self) = effects self @ replicate n Warned"
  by (simp_all add: warn_n_def)

lemma warn_n_warn_n: "warn_n n (warn_n m self) = warn_n (m + n) self"
  by (simp add: warn_n_def replicate_add)

lemma emit_Warned: "emit Warned self = warn_n 1 self"
  by (simp add: emit_def warn_n_def)

lemma effects_emit [simp]: "effects (emit ev self) = effects self @ [ev]"
  by (simp add: emit_def)

lemma emit_fields [simp]:
  "prior (emit ev self) = prior self"
  "params_to_estimate (emit ev self) = params_to_estimate self"
  "M (emit ev self) = M self"
  by (simp_all add: emit_def)

lemma debug_prints_fields [simp]:
  "prior (debug_prints b self) = prior self"
  "params_to_estimate (debug_prints b self) = params_to_estimate self"
  "M (debug_prints b self) = M self"
  "effects (debug_prints b self) = effects self @ (if b then replicate 4 Printed else [])"
  by (simp_all add: debug_prints_def numeral_eq_Suc)

lemma check_prior_loop_step:
  "check_prior_loop ar ((key, v) # rest) lp self =
     (case contribution ar key v self of
        (Inl e, self') \<Rightarrow> (Inl e, self')
      | (Inr c, self') \<Rightarrow> check_prior_loop ar rest (fl_add lp c) self')"
  by (simp add: contribution_def split: option.splits list.splits)

lemma uniform_prior_cong:
  "prior self = prior self' \<Longrightarrow>
     \<exists>r. uniform_prior k v self = (r, self) \<and> uniform_prior k v self' = (r, self')"
  by (simp add: uniform_prior_def split: option.splits sum.splits)

lemma gaussian_prior_cong:
  assumes "prior self = prior self'"
  shows "\<exists>r n. gaussian_prior ar k v self = (r, warn_n n self)
             \<and> gaussian_prior ar k v self' = (r, warn_n n self')"
proof -
  have "(\<exists>r. gaussian_prior ar k v self = (r, self) \<and> gaussian_prior ar k v self' = (r, self'))
      \<or> (\<exists>r. gaussian_prior ar k v self = (r, emit Warned self)
             \<and> gaussian_prior ar k v self' = (r, emit Warned self'))"
    using assms
    by (simp add: gaussian_prior_def Let_def split: option.splits sum.splits pyval.splits)
  then show ?thesis
    by (metis emit_Warned warn_n_0)
qed

lemma contribution_cong:
  assumes "prior self = prior self'"
  shows "\<exists>r n. contribution ar k v self = (r, warn_n n self)
             \<and> contribution ar k v self' = (r, warn_n n self')"
proof -
  have u: "\<exists>r n. uniform_prior k v self = (r, warn_n n self)
             \<and> uniform_prior k v self' = (r, warn_n n self')"
    using uniform_prior_cong [OF assms, of k v] by (metis warn_n_0)
  have e: "\<And>x. \<exists>r n. (x, self) = (r, warn_n n self) \<and> (x, self') = (r, warn_n n self')"
    by (metis warn_n_0)
  show ?thesis
    using assms u gaussian_prior_cong [where ar = ar and k = k and v = v, OF assms] e
    by (simp add: contribution_def split: option.splits list.splits)
qed

lemma check_prior_loop_cong:
  "prior self = prior self' \<Longrightarrow>
     \<exists>r n. check_prior_loop ar d lp self = (r, warn_n n self)
          \<and> check_prior_loop ar d lp self' = (r, warn_n n self')"
proof (induction d arbitrary: lp self self')
  case Nil
  show ?case by (metis check_prior_loop.simps(1) warn_n_0)
next
  case (Cons kv d)
  obtain key v where kv: "kv = (key, v)" by (cases kv)
  from contribution_cong [where ar = ar and k = key and v = v, OF Cons.prems] obtain r m where
    c: "contribution ar key v self = (r, warn_n m self)"
       "contribution ar key v self' = (r, warn_n m self')" by blast
  show ?case
  proof (cases r)
    case (Inl e)
    then show ?thesis using kv c
      by (auto simp add: check_prior_loop_step simp del: check_prior_loop.simps(2))
  next
    case (Inr x)
    have "prior (warn_n m self) = prior (warn_n m self')" using Cons.prems by simp
    from Cons.IH [OF this, of "fl_add lp x"] obtain r' n where
      "check_prior_loop ar d (fl_add lp x) (warn_n m self) = (r', warn_n n (warn_n m self))"
      "check_prior_loop ar d (fl_add lp x) (warn_n m self') = (r', warn_n n (warn_n m self'))"
      by blast
    then show ?thesis using kv c Inr
      by (auto simp add: check_prior_loop_step warn_n_warn_n simp del: check_prior_loop.simps(2))
  qed
qed

lemma check_prior_cong:
  "prior self = prior self' \<Longrightarrow>
     \<exists>r n. check_prior ar d self = (r, warn_n n self) \<and> check_prior ar d self' = (r, warn_n n self')"
  unfolding check_prior_def by (rule check_prior_loop_cong)

lemma check_prior_state: "\<exists>n. snd (check_prior ar d self) = warn_n n self"
  using check_prior_cong [where ar = ar and self = self and self' = self and d = d] by auto

lemma filter_engine_event_warnings: "filter engine_event (replicate n Warned) = []"
  by (induction n) simp_all

text \<open>
  Every contribution of an evaluator is \<open>0.0\<close> or positive infinity, and so is every
  total that \<open>check_prior\<close> returns; a finite total is \<open>0.0\<close>.
\<close>

lemma uniform_prior_range:
  "fst (uniform_prior k v self) = Inr c \<Longrightarrow> c = Fin 0 \<or> c = PInf"
  by (auto simp add: uniform_prior_def split: option.splits sum.splits if_splits)

lemma gaussian_prior_range:
  "fst (gaussian_prior ar k v self) = Inr c \<Longrightarrow> c = Fin 0 \<or> c = PInf"
  by (auto simp add: gaussian_prior_def Let_def split: option.splits sum.splits if_splits pyval.splits)

lemma contribution_range:
  "fst (contribution ar k v self) = Inr c \<Longrightarrow> c = Fin 0 \<or> c = PInf"
  using uniform_prior_range [of k v self c] gaussian_prior_range [of ar k v self c]
  by (simp add: contribution_def split: option.splits list.splits if_splits)

lemma fl_add_range:
  "lp = Fin 0 \<or> lp = PInf \<Longrightarrow> c = Fin 0 \<or> c = PInf \<Longrightarrow> fl_add lp c = Fin 0 \<or> fl_add lp c = PInf"
  by auto

lemma check_prior_loop_range:
  "lp = Fin 0 \<or> lp = PInf \<Longrightarrow> fst (check_prior_loop ar d lp self) = Inr t \<Longrightarrow> t = Fin 0 \<or> t = PInf"
proof (induction d arbitrary: lp self)
  case Nil
  then show ?case by auto
next
  case (Cons kv d)
  obtain key v where kv: "kv = (key, v)" by (cases kv)
  obtain r s where c: "contribution ar key v self = (r, s)" by (cases "contribution ar key v self")
  show ?case
  proof (cases r)
    case (Inl e)
    with Cons.prems(2) kv c show ?thesis
      by (simp add: check_prior_loop_step del: check_prior_loop.simps(2))
  next
    case (Inr x)
    have x: "x = Fin 0 \<or> x = PInf"
      using contribution_range [of ar key v self x] c Inr by simp
    have "fst (check_prior_loop ar d (fl_add lp x) s) = Inr t"
      using Cons.prems(2) kv c Inr
      by (simp add: check_prior_loop_step del: check_prior_loop.simps(2))
    with Cons.IH [OF fl_add_range [OF Cons.prems(1) x]] show ?thesis by blast
  qed
qed

lemma check_prior_range:
  "fst (check_prior ar d self) = Inr t \<Longrightarrow> t = Fin 0 \<or> t = PInf"
  unfolding check_prior_def using check_prior_loop_range [of "Fin 0"] by blast

lemma finite_prior_is_zero:
  "fst (check_prior ar d self) = Inr lp \<Longrightarrow> isfinite lp \<Longrightarrow> lp = Fin 0"
  using check_prior_range [of ar d self lp] by auto

lemma fl_add_zero_left: "fl_add (Fin 0) c = c"
  by (cases c) simp_all

section \<open>Prior rejection\<close>

text \<open>
  C1. Whenever \<open>check_prior\<close> returns a total that is not finite, both
  \<open>get_likelihood_function\<close> methods return \<open>-inf\<close> at once: whatever the
  engine, the data and the other arguments are, nothing but warnings of the prior
  evaluation is added to the log, so no data is packaged, no likelihood object is
  constructed and none is called.
\<close>

theorem prior_rejection_skips_engine:
  assumes "fst (check_prior ar (make_params_dict (params_to_estimate self) params_values) self) = Inr lp"
    and "\<not> isfinite lp"
  shows "(\<exists>ws. stochastic_get_likelihood_function ar eng_s params_values data tps measurements
               initial_conditions norm_order N_simulations debug self
             = (Inr (Some MInf), self\<lparr>effects := effects self @ ws\<rparr>)
           \<and> filter engine_event ws = [])
       \<and> (\<exists>ws. deterministic_get_likelihood_function ar eng_d params_values data tps measurements
               initial_conditions norm_order debug self
             = (Inr (Some MInf), self\<lparr>effects := effects self @ ws\<rparr>)
           \<and> filter engine_event ws = [])"
proof -
  let ?d = "make_params_dict (params_to_estimate self) params_values"
  obtain n where n: "snd (check_prior ar ?d self) = warn_n n self"
    using check_prior_state by blast
  with assms(1) have cp: "check_prior ar ?d self = (Inr lp, warn_n n self)"
    by (metis prod.collapse)
  have s: "stochastic_get_likelihood_function ar eng_s params_values data tps measurements
               initial_conditions norm_order N_simulations debug self
             = (Inr (Some MInf), warn_n n self)"
    using cp assms(2) by (simp add: stochastic_get_likelihood_function_def)
  have d: "deterministic_get_likelihood_function ar eng_d params_values data tps measurements
               initial_conditions norm_order debug self
             = (Inr (Some MInf), warn_n n self)"
    using cp assms(2) by (simp add: deterministic_get_likelihood_function_def)
  show ?thesis
    using s d filter_engine_event_warnings [of n] unfolding warn_n_def by blast
qed

theorem prior_rejection_skips_engine_witness:
  "fst (check_prior exact_arith (make_params_dict (params_to_estimate two_param_pid) [Fin 0.5, Fin 2])
          two_param_pid) = Inr PInf
   \<and> \<not> isfinite PInf
   \<and> fst (stochastic_get_likelihood_function exact_arith (stub_stochastic_engine True (Fin (- 3.2)))
            [Fin 0.5, Fin 2] five_trajectories [[0, 1]] [''X''] [[(''X'', 0)]] 2 3 False
            two_param_pid) = Inr (Some MInf)
   \<and> fst (deterministic_get_likelihood_function exact_arith (stub_deterministic_engine True (Fin (- 3.2)))
            [Fin 0.5, Fin 2] five_trajectories [[0, 1]] [''X''] [[(''X'', 0)]] 2 False
            two_param_pid) = Inr (Some MInf)"
proof -
  have h: "fst (check_prior exact_arith (make_params_dict (params_to_estimate two_param_pid) [Fin 0.5, Fin 2])
          two_param_pid) = Inr PInf"
    by (simp add: make_params_dict_def check_prior_def two_param_pid_def init_pid_def
        unit_box_prior_def uniform_prior_def fl_gt_def)
  have f: "\<not> isfinite PInf" by simp
  from prior_rejection_skips_engine [OF h f,
      of "stub_stochastic_engine True (Fin (- 3.2))" five_trajectories "[[0, 1]]" "[''X'']"
         "[[(''X'', 0)]]" 2 3 False "stub_deterministic_engine True (Fin (- 3.2))"]
  show ?thesis using h by auto
qed

section \<open>The uniform prior\<close>

text \<open>
  C2, as the code has it. For a well-formed entry \<open>['uniform', lower, upper]\<close>,
  \<open>uniform_prior\<close> returns \<open>0.0\<close> for every value with
  \<open>lower \<le> value \<le> upper\<close>, both bounds included, and \<open>np.inf\<close>, positive
  infinity, for every value strictly outside; it changes nothing.
\<close>

theorem uniform_prior_values:
  assumes "prior self = Some prior_dict"
    and "prior_dict param_name = Some [Str ''uniform'', Num (Fin lower), Num (Fin upper)]"
  shows "(lower \<le> x \<and> x \<le> upper \<longrightarrow> fst (uniform_prior param_name (Fin x) self) = Inr (Fin 0))
       \<and> (x < lower \<or> upper < x \<longrightarrow> fst (uniform_prior param_name (Fin x) self) = Inr PInf)
       \<and> snd (uniform_prior param_name (Fin x) self) = self"
  using assms by (auto simp add: uniform_prior_def fl_gt_def)

theorem uniform_prior_values_witness:
  "prior two_param_pid = Some unit_box_prior
   \<and> unit_box_prior ''k2'' = Some [Str ''uniform'', Num (Fin 0), Num (Fin 1)]
   \<and> fst (uniform_prior ''k2'' (Fin 1) two_param_pid) = Inr (Fin 0)
   \<and> fst (uniform_prior ''k2'' (Fin 2) two_param_pid) = Inr PInf"
proof -
  have p: "prior two_param_pid = Some unit_box_prior"
    by (simp add: two_param_pid_def init_pid_def)
  have e: "unit_box_prior ''k2'' = Some [Str ''uniform'', Num (Fin 0), Num (Fin 1)]"
    by (simp add: unit_box_prior_def)
  from uniform_prior_values [OF p e, of 1] uniform_prior_values [OF p e, of 2]
  show ?thesis using p e by simp
qed

text \<open>
  The value \<open>2.0\<close> lies strictly above the bounds \<open>[0, 1]\<close> of \<open>k2\<close>: the
  evaluator returns positive infinity there, not negative infinity.
\<close>

theorem uniform_prior_rejects_with_positive_infinity:
  "fst (uniform_prior ''k2'' (Fin 2) two_param_pid) = Inr PInf
   \<and> fst (uniform_prior ''k2'' (Fin 2) two_param_pid) \<noteq> Inr MInf"
  by (simp add: two_param_pid_def init_pid_def unit_box_prior_def uniform_prior_def fl_gt_def)

section \<open>The gaussian prior\<close>

lemma sqrt_two_pi_bounds: "2 \<le> sqrt (2 * pi)" "sqrt (2 * pi) < 3"
proof -
  have "sqrt 4 \<le> sqrt (2 * pi)"
    using pi_ge_two by (intro real_sqrt_le_mono) simp
  then show "2 \<le> sqrt (2 * pi)" by simp
  have "sqrt (2 * pi) < sqrt 9"
    using pi_less_4 by (intro real_sqrt_less_mono) simp
  then show "sqrt (2 * pi) < 3" by simp
qed

lemma inverse_sqrt_two_pi_less_one: "1 / sqrt (2 * pi) < 1"
proof -
  have "1 < sqrt (2 * pi)" using sqrt_two_pi_bounds(1) by linarith
  then show ?thesis by simp
qed

lemma gaussian_prob_exact:
  assumes "sigma \<noteq> 0"
  shows "gaussian_prob exact_arith (Fin x) (Num (Fin mu)) (Num (Fin sigma))
       = Inr (Fin (1 / (sqrt (2 * pi) * sigma) * exp ((- 0.5 * x - mu)\<^sup>2 / sigma\<^sup>2)))"
  using assms sqrt_two_pi_bounds(1)
  by (simp add: gaussian_prob_def exact_arith_def then_do_def fl_sq_def fl_sub_def
      power2_eq_square)

lemma gaussian_prob_at_origin:
  "gaussian_prob exact_arith (Fin 0) (Num (Fin 0)) (Num (Fin 1)) = Inr (Fin (1 / sqrt (2 * pi)))"
  using gaussian_prob_exact [of 1 0 0] by simp

lemma standard_density_at_origin: "standard_gaussian_density 0 0 1 = 1 / sqrt (2 * pi)"
  by (simp add: standard_gaussian_density_def)

text \<open>An exception of the arithmetic is the exception of the method.\<close>

lemma gaussian_prior_raises:
  assumes "prior self = Some prior_dict"
    and "prior_dict param_name = Some [tag, mean, std_dev, threshold]"
    and "gaussian_prob ar param_value mean std_dev = Inl e"
  shows "gaussian_prior ar param_name param_value self = (Inl e, self)"
  using assms by (simp add: gaussian_prior_def)

text \<open>
  When the threshold is the very number the expression evaluates to, the value is
  accepted: the test is \<open>prob < prob_threshold\<close>.
\<close>

lemma gaussian_prior_accepts_at_threshold:
  assumes "prior self = Some prior_dict"
    and "prior_dict param_name = Some [tag, mean, std_dev, Num prob]"
    and "gaussian_prob ar param_value mean std_dev = Inr prob"
  shows "fst (gaussian_prior ar param_name param_value self) = Inr (Fin 0)"
proof -
  have "\<not> fl_lt prob prob" by (cases prob) simp_all
  then show ?thesis using assms by (simp add: gaussian_prior_def Let_def)
qed

text \<open>
  C3, as the code has it. For a well-formed entry
  \<open>['gaussian', mean, std_dev, threshold]\<close> and whatever arithmetic the code runs
  on: whenever the evaluation of the source's expression returns a number \<open>prob\<close>
  (finite, infinite or NaN; it can also raise, and then the method raises), the
  evaluator returns \<open>np.inf\<close>, positive infinity, when \<open>prob < threshold\<close> and
  \<open>0.0\<close> otherwise, so also when \<open>prob\<close> equals the threshold; the method's own
  warning is issued exactly when \<open>prob > 1\<close>, and nothing else changes. Which
  density \<open>prob\<close> is, is not part of this statement.
\<close>

theorem gaussian_prior_values:
  assumes "prior self = Some prior_dict"
    and "prior_dict param_name = Some [Str ''gaussian'', Num mean, Num std_dev, Num threshold]"
    and "gaussian_prob ar param_value (Num mean) (Num std_dev) = Inr prob"
  shows "gaussian_prior ar param_name param_value self
           = (Inr (if fl_lt prob threshold then PInf else Fin 0),
              if fl_gt prob (Fin 1) then emit Warned self else self)"
  using assms by (simp add: gaussian_prior_def Let_def)

theorem gaussian_prior_values_witness:
  "prior (gaussian_pid 1) = Some [''k'' \<mapsto> [Str ''gaussian'', Num (Fin 0), Num (Fin 1), Num (Fin 1)]]
   \<and> gaussian_prob exact_arith (Fin 0) (Num (Fin 0)) (Num (Fin 1)) = Inr (Fin (1 / sqrt (2 * pi)))
   \<and> gaussian_prior exact_arith ''k'' (Fin 0) (gaussian_pid 1) = (Inr PInf, gaussian_pid 1)"
proof -
  have p: "prior (gaussian_pid 1) = Some [''k'' \<mapsto> [Str ''gaussian'', Num (Fin 0), Num (Fin 1), Num (Fin 1)]]"
    by (simp add: gaussian_pid_def init_pid_def)
  have e: "[''k'' \<mapsto> [Str ''gaussian'', Num (Fin 0), Num (Fin 1), Num (Fin 1)]] ''k''
             = Some [Str ''gaussian'', Num (Fin 0), Num (Fin 1), Num (Fin 1)]"
    by simp
  note g = gaussian_prob_at_origin
  have lt: "1 / sqrt (2 * pi) < 1" by (rule inverse_sqrt_two_pi_less_one)
  from gaussian_prior_values [OF p e g] lt p g show ?thesis
    by (simp add: fl_gt_def)
qed

text \<open>
  At \<open>value = mean = 0\<close>, \<open>std_dev = 1\<close> the source's expression and the
  standard density agree: both are \<open>1/sqrt(2\<pi>)\<close>, about \<open>0.399\<close> (in double
  precision \<open>1/2.5066282746310002 * np.exp(0.0)\<close>). With the threshold \<open>1\<close> the
  density does not exceed the threshold and the evaluator returns positive infinity,
  not negative infinity.
\<close>

theorem gaussian_prior_rejects_with_positive_infinity:
  "standard_gaussian_density 0 0 1 \<le> 1
   \<and> fst (gaussian_prior exact_arith ''k'' (Fin 0) (gaussian_pid 1)) = Inr PInf
   \<and> fst (gaussian_prior exact_arith ''k'' (Fin 0) (gaussian_pid 1)) \<noteq> Inr MInf"
proof -
  have d: "standard_gaussian_density 0 0 1 = 1 / sqrt (2 * pi)"
    by (rule standard_density_at_origin)
  have lt: "1 / sqrt (2 * pi) < 1" by (rule inverse_sqrt_two_pi_less_one)
  have a: "fst (gaussian_prior exact_arith ''k'' (Fin 0) (gaussian_pid 1)) = Inr PInf"
    using lt
    by (simp add: gaussian_prior_def gaussian_pid_def init_pid_def Let_def gaussian_prob_at_origin)
  show ?thesis using d lt a by simp
qed

text \<open>
  The source's exponent is \<open>(-0.5*param_value - mu)**2/sigma**2\<close>, never negative,
  where the density has \<open>-0.5*((param_value - mu)/sigma)**2\<close>, never positive: at
  \<open>value = 2\<close>, \<open>mean = 0\<close>, \<open>std_dev = 1\<close> the standard density is below
  \<open>1/2\<close> (about \<open>0.054\<close>), \<open>prob\<close> is above it (about \<open>1.08\<close>), and with
  the threshold \<open>1/2\<close> the value is accepted.
\<close>

lemma gaussian_prob_is_not_the_standard_density:
  "standard_gaussian_density 2 0 1 < 1 / 2
   \<and> (\<exists>prob. gaussian_prob exact_arith (Fin 2) (Num (Fin 0)) (Num (Fin 1)) = Inr (Fin prob)
          \<and> 1 / 2 < prob)
   \<and> fst (gaussian_prior exact_arith ''k'' (Fin 2) (gaussian_pid (1 / 2))) = Inr (Fin 0)"
proof -
  have "exp (- 2 :: real) < 1" by simp
  moreover have "0 < sqrt (2 * pi)" using sqrt_two_pi_bounds(1) by linarith
  ultimately have "exp (- 2 :: real) / sqrt (2 * pi) < 1 / sqrt (2 * pi)"
    by (simp add: divide_strict_right_mono)
  also have "1 / sqrt (2 * pi) \<le> 1 / 2"
    using sqrt_two_pi_bounds(1) by (simp add: field_simps)
  finally have "exp (- 2 :: real) / sqrt (2 * pi) < 1 / 2" .
  then have std: "standard_gaussian_density 2 0 1 < 1 / 2"
    by (simp add: standard_gaussian_density_def)
  have g: "gaussian_prob exact_arith (Fin 2) (Num (Fin 0)) (Num (Fin 1))
             = Inr (Fin (exp 1 / sqrt (2 * pi)))"
    using gaussian_prob_exact [of 1 2 0] by simp
  have "(2::real) \<le> exp 1" using exp_ge_add_one_self [of "1::real"] by simp
  then have big: "1 / 2 < exp 1 / sqrt (2 * pi)"
    using sqrt_two_pi_bounds by (simp add: field_simps)
  have "fst (gaussian_prior exact_arith ''k'' (Fin 2) (gaussian_pid (1 / 2))) = Inr (Fin 0)"
    using big g by (simp add: gaussian_prior_def gaussian_pid_def init_pid_def Let_def)
  with std g big show ?thesis by blast
qed

section \<open>Parameter names and values of different lengths\<close>

lemma make_params_dict_common_prefix:
  "make_params_dict names params_values
     = make_params_dict (take (min (length names) (length params_values)) names)
                        (take (min (length names) (length params_values)) params_values)"
proof -
  let ?n = "min (length names) (length params_values)"
  have "zip (take ?n names) (take ?n params_values) = take ?n (zip names params_values)"
    by (simp add: take_zip)
  also have "\<dots> = zip names params_values" by simp
  finally show ?thesis by (simp add: make_params_dict_def)
qed

text \<open>
  C6, as the code has it. Neither \<open>get_likelihood_function\<close> compares the length of
  \<open>params_values\<close> with the length of \<open>params_to_estimate\<close>: \<open>zip\<close> pairs the
  common prefix, and the call returns what it returns when both sequences are cut to
  their common length. No error is raised for the difference.
\<close>

theorem mismatched_lengths_pair_common_prefix:
  "fst (stochastic_get_likelihood_function ar eng_s params_values data tps measurements
          initial_conditions norm_order N_simulations debug self)
     = fst (stochastic_get_likelihood_function ar eng_s
          (take (min (length (params_to_estimate self)) (length params_values)) params_values)
          data tps measurements initial_conditions norm_order N_simulations debug
          (self\<lparr>params_to_estimate :=
             take (min (length (params_to_estimate self)) (length params_values))
               (params_to_estimate self)\<rparr>))
   \<and> fst (deterministic_get_likelihood_function ar eng_d params_values data tps measurements
          initial_conditions norm_order debug self)
     = fst (deterministic_get_likelihood_function ar eng_d
          (take (min (length (params_to_estimate self)) (length params_values)) params_values)
          data tps measurements initial_conditions norm_order debug
          (self\<lparr>params_to_estimate :=
             take (min (length (params_to_estimate self)) (length params_values))
               (params_to_estimate self)\<rparr>))"
proof -
  let ?n = "min (length (params_to_estimate self)) (length params_values)"
  let ?self' = "self\<lparr>params_to_estimate := take ?n (params_to_estimate self)\<rparr>"
  let ?d = "make_params_dict (params_to_estimate self) params_values"
  have d: "make_params_dict (params_to_estimate ?self') (take ?n params_values) = ?d"
    using make_params_dict_common_prefix [of "params_to_estimate self" params_values] by simp
  have "prior self = prior ?self'" by simp
  from check_prior_cong [where ar = ar and d = ?d, OF this] obtain r n where
    c: "check_prior ar ?d self = (r, warn_n n self)" "check_prior ar ?d ?self' = (r, warn_n n ?self')"
    by blast
  have m: "M ?self' = M self" by simp
  have s: "fst (stochastic_get_likelihood_function ar eng_s params_values data tps measurements
          initial_conditions norm_order N_simulations debug self)
     = fst (stochastic_get_likelihood_function ar eng_s (take ?n params_values)
          data tps measurements initial_conditions norm_order N_simulations debug ?self')"
    unfolding stochastic_get_likelihood_function_def d m Let_def c
    by (simp split: sum.splits list.splits)
  have t: "fst (deterministic_get_likelihood_function ar eng_d params_values data tps measurements
          initial_conditions norm_order debug self)
     = fst (deterministic_get_likelihood_function ar eng_d (take ?n params_values)
          data tps measurements initial_conditions norm_order debug ?self')"
    unfolding deterministic_get_likelihood_function_def d m Let_def c
    by (simp split: sum.splits list.splits)
  show ?thesis using s t by simp
qed

text \<open>
  Two names, one value: the call returns the score \<open>0.0 + (-3.2)\<close> of the stub engine.
\<close>

theorem short_parameter_vector_is_scored:
  "length (params_to_estimate two_param_pid) \<noteq> length [Fin 0.5]
   \<and> fst (stochastic_get_likelihood_function exact_arith (stub_stochastic_engine True (Fin (- 3.2)))
            [Fin 0.5] five_trajectories [[0, 1]] [''X''] [[(''X'', 0)]] 2 3 False
            two_param_pid) = Inr (Some (Fin (- 3.2)))
   \<and> fst (deterministic_get_likelihood_function exact_arith (stub_deterministic_engine True (Fin (- 3.2)))
            [Fin 0.5] five_trajectories [[0, 1]] [''X''] [[(''X'', 0)]] 2 False
            two_param_pid) = Inr (Some (Fin (- 3.2)))"
  by (simp add: stochastic_get_likelihood_function_def deterministic_get_likelihood_function_def
      make_params_dict_def check_prior_def two_param_pid_def init_pid_def unit_box_prior_def
      uniform_prior_def fl_gt_def five_trajectories_def stub_stochastic_engine_def
      stub_deterministic_engine_def emit_def debug_prints_def)

section \<open>What comes back from the engine\<close>

text \<open>Both parameters of the sample configuration inside their bounds.\<close>

lemma two_param_pid_admissible:
  "check_prior exact_arith (make_params_dict (params_to_estimate two_param_pid) [Fin 0.5, Fin 0.25])
     two_param_pid = (Inr (Fin 0), two_param_pid)"
  by (simp add: make_params_dict_def check_prior_def two_param_pid_def init_pid_def
      unit_box_prior_def uniform_prior_def fl_gt_def)

text \<open>
  C4, as the code has it. Whenever the prior is admissible and the likelihood engine
  returns a value, finite or not, both \<open>get_likelihood_function\<close> methods return
  \<open>lp + cost\<close> with \<open>lp = 0.0\<close>, which is that value itself: NaN comes back as NaN,
  an infinity as the same infinity. Nothing is coerced to \<open>-inf\<close>.
\<close>

theorem likelihood_value_is_returned_unchanged:
  assumes "fst (check_prior ar (make_params_dict (params_to_estimate self) params_values) self) = Inr lp"
    and "isfinite lp"
    and "np_shape data = N # dims"
    and "StochasticTrajectories eng_s tps data measurements N = Inr data_s"
    and "STLL eng_s (M self) initial_conditions data_s N_simulations norm_order = Inr obj_s"
    and "stll_bool eng_s obj_s"
    and "stll_set_init_params eng_s obj_s
           (make_params_dict (params_to_estimate self) params_values) = Inr bound_s"
    and "stll_py_log_likelihood eng_s bound_s = Inr cost_s"
    and "BulkData eng_d tps data measurements N = Inr data_d"
    and "DLL eng_d (M self) initial_conditions data_d norm_order = Inr obj_d"
    and "dll_bool eng_d obj_d"
    and "dll_set_init_params eng_d obj_d
           (make_params_dict (params_to_estimate self) params_values) = Inr bound_d"
    and "dll_py_log_likelihood eng_d bound_d = Inr cost_d"
  shows "fst (stochastic_get_likelihood_function ar eng_s params_values data tps measurements
               initial_conditions norm_order N_simulations debug self) = Inr (Some cost_s)
       \<and> fst (deterministic_get_likelihood_function ar eng_d params_values data tps measurements
               initial_conditions norm_order debug self) = Inr (Some cost_d)"
proof -
  let ?d = "make_params_dict (params_to_estimate self) params_values"
  have lp: "lp = Fin 0" using assms(1,2) by (rule finite_prior_is_zero)
  obtain s1 where cp: "check_prior ar ?d self = (Inr (Fin 0), s1)"
    using assms(1) lp by (metis prod.collapse)
  have "fst (stochastic_get_likelihood_function ar eng_s params_values data tps measurements
               initial_conditions norm_order N_simulations debug self) = Inr (Some cost_s)"
    using cp assms(3-8)
    by (simp add: stochastic_get_likelihood_function_def Let_def fl_add_zero_left)
  moreover have "fst (deterministic_get_likelihood_function ar eng_d params_values data tps
               measurements initial_conditions norm_order debug self) = Inr (Some cost_d)"
    using cp assms(3,9-13)
    by (simp add: deterministic_get_likelihood_function_def Let_def fl_add_zero_left)
  ultimately show ?thesis by simp
qed

theorem likelihood_value_is_returned_unchanged_witness:
  "fst (stochastic_get_likelihood_function exact_arith (stub_stochastic_engine True MInf)
          [Fin 0.5, Fin 0.25] five_trajectories [[0, 1]] [''X''] [[(''X'', 0)]] 2 3 False
          two_param_pid) = Inr (Some MInf)
   \<and> fst (deterministic_get_likelihood_function exact_arith (stub_deterministic_engine True (Fin (- 3.2)))
          [Fin 0.5, Fin 0.25] five_trajectories [[0, 1]] [''X''] [[(''X'', 0)]] 2 False
          two_param_pid) = Inr (Some (Fin (- 3.2)))"
proof -
  let ?d = "make_params_dict (params_to_estimate two_param_pid) [Fin 0.5, Fin 0.25]"
  have a1: "fst (check_prior exact_arith ?d two_param_pid) = Inr (Fin 0)"
    using two_param_pid_admissible by simp
  have a2: "isfinite (Fin 0)" by simp
  have a3: "np_shape five_trajectories = 5 # [2, 1]" by (simp add: five_trajectories_def)
  have s1: "StochasticTrajectories (stub_stochastic_engine True MInf) [[0, 1]] five_trajectories
              [''X''] 5 = Inr ()"
    by (simp add: stub_stochastic_engine_def)
  have s2: "STLL (stub_stochastic_engine True MInf) (M two_param_pid) [[(''X'', 0)]] () 3 2
              = Inr True"
    by (simp add: stub_stochastic_engine_def)
  have s3: "stll_bool (stub_stochastic_engine True MInf) True"
    by (simp add: stub_stochastic_engine_def)
  have s4: "stll_set_init_params (stub_stochastic_engine True MInf) True ?d = Inr True"
    by (simp add: stub_stochastic_engine_def)
  have s5: "stll_py_log_likelihood (stub_stochastic_engine True MInf) True = Inr MInf"
    by (simp add: stub_stochastic_engine_def)
  have d1: "BulkData (stub_deterministic_engine True (Fin (- 3.2))) [[0, 1]] five_trajectories
              [''X''] 5 = Inr ()"
    by (simp add: stub_deterministic_engine_def)
  have d2: "DLL (stub_deterministic_engine True (Fin (- 3.2))) (M two_param_pid) [[(''X'', 0)]]
              () 2 = Inr True"
    by (simp add: stub_deterministic_engine_def)
  have d3: "dll_bool (stub_deterministic_engine True (Fin (- 3.2))) True"
    by (simp add: stub_deterministic_engine_def)
  have d4: "dll_set_init_params (stub_deterministic_engine True (Fin (- 3.2))) True ?d = Inr True"
    by (simp add: stub_deterministic_engine_def)
  have d5: "dll_py_log_likelihood (stub_deterministic_engine True (Fin (- 3.2))) True
              = Inr (Fin (- 3.2))"
    by (simp add: stub_deterministic_engine_def)
  show ?thesis
    by (rule likelihood_value_is_returned_unchanged
        [OF a1 a2 a3 s1 s2 s3 s4 s5 d1 d2 d3 d4 d5])
qed

text \<open>
  Both parameters inside their bounds and an engine whose likelihood is NaN: the score
  is NaN.
\<close>

theorem nan_likelihood_reaches_the_sampler:
  "fst (check_prior exact_arith (make_params_dict (params_to_estimate two_param_pid) [Fin 0.5, Fin 0.25])
          two_param_pid) = Inr (Fin 0)
   \<and> fst (stochastic_get_likelihood_function exact_arith (stub_stochastic_engine True NaN)
          [Fin 0.5, Fin 0.25] five_trajectories [[0, 1]] [''X''] [[(''X'', 0)]] 2 3 False
          two_param_pid) = Inr (Some NaN)
   \<and> fst (deterministic_get_likelihood_function exact_arith (stub_deterministic_engine True NaN)
          [Fin 0.5, Fin 0.25] five_trajectories [[0, 1]] [''X''] [[(''X'', 0)]] 2 False
          two_param_pid) = Inr (Some NaN)"
  using two_param_pid_admissible
  by (simp add: stochastic_get_likelihood_function_def
      deterministic_get_likelihood_function_def five_trajectories_def
      stub_stochastic_engine_def stub_deterministic_engine_def)

text \<open>
  C5, as the code has it. When the constructed likelihood object is falsy, both
  \<open>get_likelihood_function\<close> methods skip the body of \<open>if LL_stoch:\<close> (\<open>if
  LL_det:\<close>) and end without a \<open>return\<close>: the result is \<open>None\<close>, no error is
  raised, and after the construction nothing more is done, so neither
  \<open>set_init_params\<close> nor \<open>py_log_likelihood\<close> is called.
\<close>

theorem falsy_likelihood_object_gives_None:
  assumes "fst (check_prior ar (make_params_dict (params_to_estimate self) params_values) self) = Inr lp"
    and "isfinite lp"
    and "np_shape data = N # dims"
    and "StochasticTrajectories eng_s tps data measurements N = Inr data_s"
    and "STLL eng_s (M self) initial_conditions data_s N_simulations norm_order = Inr obj_s"
    and "\<not> stll_bool eng_s obj_s"
    and "BulkData eng_d tps data measurements N = Inr data_d"
    and "DLL eng_d (M self) initial_conditions data_d norm_order = Inr obj_d"
    and "\<not> dll_bool eng_d obj_d"
  shows "stochastic_get_likelihood_function ar eng_s params_values data tps measurements
               initial_conditions norm_order N_simulations debug self
           = (Inr None,
              emit (Constructed initial_conditions) (emit (Packaged N) (debug_prints debug
                (snd (check_prior ar (make_params_dict (params_to_estimate self) params_values) self)))))
       \<and> deterministic_get_likelihood_function ar eng_d params_values data tps measurements
               initial_conditions norm_order debug self
           = (Inr None,
              emit (Constructed initial_conditions) (debug_prints debug (emit (Packaged N)
                (snd (check_prior ar (make_params_dict (params_to_estimate self) params_values) self)))))"
proof -
  let ?d = "make_params_dict (params_to_estimate self) params_values"
  obtain s1 where cp: "check_prior ar ?d self = (Inr lp, s1)"
    using assms(1) by (metis prod.collapse)
  show ?thesis
    using cp assms(2-9)
    by (simp add: stochastic_get_likelihood_function_def
        deterministic_get_likelihood_function_def Let_def)
qed

theorem falsy_likelihood_object_gives_None_witness:
  "fst (stochastic_get_likelihood_function exact_arith (stub_stochastic_engine False (Fin (- 3.2)))
          [Fin 0.5, Fin 0.25] five_trajectories [[0, 1]] [''X''] [[(''X'', 0)]] 2 3 False
          two_param_pid) = Inr None
   \<and> fst (deterministic_get_likelihood_function exact_arith (stub_deterministic_engine False (Fin (- 3.2)))
          [Fin 0.5, Fin 0.25] five_trajectories [[0, 1]] [''X''] [[(''X'', 0)]] 2 False
          two_param_pid) = Inr None"
proof -
  let ?d = "make_params_dict (params_to_estimate two_param_pid) [Fin 0.5, Fin 0.25]"
  have a1: "fst (check_prior exact_arith ?d two_param_pid) = Inr (Fin 0)"
    using two_param_pid_admissible by simp
  have a2: "isfinite (Fin 0)" by simp
  have a3: "np_shape five_trajectories = 5 # [2, 1]" by (simp add: five_trajectories_def)
  have s1: "StochasticTrajectories (stub_stochastic_engine False (Fin (- 3.2))) [[0, 1]]
              five_trajectories [''X''] 5 = Inr ()"
    by (simp add: stub_stochastic_engine_def)
  have s2: "STLL (stub_stochastic_engine False (Fin (- 3.2))) (M two_param_pid) [[(''X'', 0)]]
              () 3 2 = Inr False"
    by (simp add: stub_stochastic_engine_def)
  have s3: "\<not> stll_bool (stub_stochastic_engine False (Fin (- 3.2))) False"
    by (simp add: stub_stochastic_engine_def)
  have d1: "BulkData (stub_deterministic_engine False (Fin (- 3.2))) [[0, 1]] five_trajectories
              [''X''] 5 = Inr ()"
    by (simp add: stub_deterministic_engine_def)
  have d2: "DLL (stub_deterministic_engine False (Fin (- 3.2))) (M two_param_pid)
              [[(''X'', 0)]] () 2 = Inr False"
    by (simp add: stub_deterministic_engine_def)
  have d3: "\<not> dll_bool (stub_deterministic_engine False (Fin (- 3.2))) False"
    by (simp add: stub_deterministic_engine_def)
  from falsy_likelihood_object_gives_None [where debug = False, OF a1 a2 a3 s1 s2 s3 d1 d2 d3]
  show ?thesis by simp
qed

text \<open>
  An engine whose likelihood object is falsy: the call returns \<open>None\<close>, a value and
  not an error.
\<close>

theorem refused_construction_raises_nothing:
  "\<not> stll_bool (stub_stochastic_engine False (Fin (- 3.2))) False
   \<and> fst (stochastic_get_likelihood_function exact_arith (stub_stochastic_engine False (Fin (- 3.2)))
          [Fin 0.5, Fin 0.25] five_trajectories [[0, 1]] [''X''] [[(''X'', 0)]] 2 3 False
          two_param_pid) = Inr None
   \<and> \<not> dll_bool (stub_deterministic_engine False (Fin (- 3.2))) False
   \<and> fst (deterministic_get_likelihood_function exact_arith (stub_deterministic_engine False (Fin (- 3.2)))
          [Fin 0.5, Fin 0.25] five_trajectories [[0, 1]] [''X''] [[(''X'', 0)]] 2 False
          two_param_pid) = Inr None"
  using two_param_pid_admissible
  by (simp add: stochastic_get_likelihood_function_def
      deterministic_get_likelihood_function_def five_trajectories_def
      stub_stochastic_engine_def stub_deterministic_engine_def)

section \<open>Initial conditions\<close>

text \<open>
  C7, as the code has it. Neither \<open>get_likelihood_function\<close> looks at the number of
  initial conditions. Whenever the prior is admissible, the data has a leading dimension
  \<open>N\<close> and the data packaging succeeds, the likelihood constructor is called with
  \<open>initial_conditions\<close> exactly as supplied, whatever its length is, and the call
  returns what the engine's answers determine: the constructor's exception if it
  raises, \<open>None\<close> if the likelihood object is falsy, the exception of
  \<open>set_init_params\<close> or of \<open>py_log_likelihood\<close> if one of them raises, and the
  score otherwise. The call adds no error of its own.
\<close>

theorem initial_conditions_reach_the_engine_unchecked:
  assumes "fst (check_prior ar (make_params_dict (params_to_estimate self) params_values) self) = Inr lp"
    and "isfinite lp"
    and "np_shape data = N # dims"
    and "StochasticTrajectories eng_s tps data measurements N = Inr data_s"
    and "BulkData eng_d tps data measurements N = Inr data_d"
  shows "stochastic_get_likelihood_function ar eng_s params_values data tps measurements
           initial_conditions norm_order N_simulations debug self
         = (let params_dict = make_params_dict (params_to_estimate self) params_values;
                s3 = emit (Constructed initial_conditions) (emit (Packaged N)
                       (debug_prints debug (snd (check_prior ar params_dict self))))
            in case STLL eng_s (M self) initial_conditions data_s N_simulations norm_order of
                 Inl e \<Rightarrow> (Inl e, s3)
               | Inr LL_stoch \<Rightarrow>
                   if stll_bool eng_s LL_stoch then
                     (case stll_set_init_params eng_s LL_stoch params_dict of
                        Inl e \<Rightarrow> (Inl e, emit (ParamsBound params_dict) s3)
                      | Inr LL_bound \<Rightarrow>
                          (case stll_py_log_likelihood eng_s LL_bound of
                             Inl e \<Rightarrow> (Inl e, emit Evaluated (emit (ParamsBound params_dict) s3))
                           | Inr cost \<Rightarrow>
                               (Inr (Some cost),
                                emit Evaluated (emit (ParamsBound params_dict) s3))))
                   else (Inr None, s3))
       \<and> deterministic_get_likelihood_function ar eng_d params_values data tps measurements
           initial_conditions norm_order debug self
         = (let params_dict = make_params_dict (params_to_estimate self) params_values;
                s3 = emit (Constructed initial_conditions) (debug_prints debug
                       (emit (Packaged N) (snd (check_prior ar params_dict self))))
            in case DLL eng_d (M self) initial_conditions data_d norm_order of
                 Inl e \<Rightarrow> (Inl e, s3)
               | Inr LL_det \<Rightarrow>
                   if dll_bool eng_d LL_det then
                     (case dll_set_init_params eng_d LL_det params_dict of
                        Inl e \<Rightarrow> (Inl e, emit (ParamsBound params_dict) s3)
                      | Inr LL_bound \<Rightarrow>
                          (case dll_py_log_likelihood eng_d LL_bound of
                             Inl e \<Rightarrow> (Inl e, emit Evaluated (emit (ParamsBound params_dict) s3))
                           | Inr cost \<Rightarrow>
                               (Inr (Some cost),
                                emit Evaluated (emit (ParamsBound params_dict) s3))))
                   else (Inr None, s3))"
proof -
  let ?d = "make_params_dict (params_to_estimate self) params_values"
  have lp: "lp = Fin 0" using assms(1,2) by (rule finite_prior_is_zero)
  obtain s1 where cp: "check_prior ar ?d self = (Inr (Fin 0), s1)"
    using assms(1) lp by (metis prod.collapse)
  show ?thesis
    using cp assms(3-5)
    by (simp add: stochastic_get_likelihood_function_def
        deterministic_get_likelihood_function_def Let_def fl_add_zero_left
        split: sum.splits)
qed

theorem initial_conditions_reach_the_engine_unchecked_witness:
  "length three_initial_conditions = 3
   \<and> np_shape five_trajectories = 5 # [2, 1]
   \<and> fst (stochastic_get_likelihood_function exact_arith
            (stub_stochastic_engine True (Fin (- 3.2))) [Fin 0.5, Fin 0.25] five_trajectories
            [[0, 1]] [''X''] three_initial_conditions 2 3 False two_param_pid)
       = Inr (Some (Fin (- 3.2)))
   \<and> fst (deterministic_get_likelihood_function exact_arith
            (stub_deterministic_engine True (Fin (- 3.2))) [Fin 0.5, Fin 0.25] five_trajectories
            [[0, 1]] [''X''] three_initial_conditions 2 False two_param_pid)
       = Inr (Some (Fin (- 3.2)))"
proof -
  let ?d = "make_params_dict (params_to_estimate two_param_pid) [Fin 0.5, Fin 0.25]"
  have a1: "fst (check_prior exact_arith ?d two_param_pid) = Inr (Fin 0)"
    using two_param_pid_admissible by simp
  have a2: "isfinite (Fin 0)" by simp
  have a3: "np_shape five_trajectories = 5 # [2, 1]" by (simp add: five_trajectories_def)
  have s1: "StochasticTrajectories (stub_stochastic_engine True (Fin (- 3.2))) [[0, 1]]
              five_trajectories [''X''] 5 = Inr ()"
    by (simp add: stub_stochastic_engine_def)
  have d1: "BulkData (stub_deterministic_engine True (Fin (- 3.2))) [[0, 1]] five_trajectories
              [''X''] 5 = Inr ()"
    by (simp add: stub_deterministic_engine_def)
  have l: "length three_initial_conditions = 3" by (simp add: three_initial_conditions_def)
  from initial_conditions_reach_the_engine_unchecked
         [where initial_conditions = three_initial_conditions and norm_order = 2
            and N_simulations = 3 and debug = False, OF a1 a2 a3 s1 d1]
  show ?thesis using l a3
    by (simp add: stub_stochastic_engine_def stub_deterministic_engine_def Let_def)
qed

text \<open>
  Five trajectories and three initial conditions: the engine is reached, its constructor
  receives the three initial conditions, and the call returns the engine's score.
\<close>

theorem three_initial_conditions_for_five_trajectories:
  "length three_initial_conditions = 3
   \<and> np_shape five_trajectories ! 0 = 5
   \<and> stochastic_get_likelihood_function exact_arith (stub_stochastic_engine True (Fin (- 3.2)))
        [Fin 0.5, Fin 0.25] five_trajectories [[0, 1]] [''X''] three_initial_conditions 2 3
        False two_param_pid
      = (Inr (Some (Fin (- 3.2))),
         two_param_pid\<lparr>effects :=
           [Packaged 5, Constructed three_initial_conditions,
            ParamsBound [(''k1'', Fin 0.5), (''k2'', Fin 0.25)], Evaluated]\<rparr>)
   \<and> deterministic_get_likelihood_function exact_arith (stub_deterministic_engine True (Fin (- 3.2)))
        [Fin 0.5, Fin 0.25] five_trajectories [[0, 1]] [''X''] three_initial_conditions 2
        False two_param_pid
      = (Inr (Some (Fin (- 3.2))),
         two_param_pid\<lparr>effects :=
           [Packaged 5, Constructed three_initial_conditions,
            ParamsBound [(''k1'', Fin 0.5), (''k2'', Fin 0.25)], Evaluated]\<rparr>)"
  by (simp add: stochastic_get_likelihood_function_def deterministic_get_likelihood_function_def
      make_params_dict_def check_prior_def two_param_pid_def init_pid_def unit_box_prior_def
      uniform_prior_def fl_gt_def five_trajectories_def stub_stochastic_engine_def
      stub_deterministic_engine_def emit_def debug_prints_def three_initial_conditions_def)

section \<open>The total of \<open>check_prior\<close>\<close>

lemma is_num_cases: "is_num x \<Longrightarrow> \<exists>a. x = Num a"
  by (cases x) simp_all

lemma well_formed_entry_cases:
  assumes "well_formed_entry entry"
  shows "(\<exists>lo hi. entry = [Str ''uniform'', Num lo, Num hi])
       \<or> (\<exists>mu sigma thr. entry = [Str ''gaussian'', Num mu, Num sigma, Num thr])"
  using assms
  by (auto simp add: well_formed_entry_def split: list.splits dest!: is_num_cases)

lemma well_formed_contribution:
  assumes "prior self = Some prior_dict" and "prior_dict key = Some entry"
    and "well_formed_entry entry"
    and "case entry of
           [tag, mean, std_dev, threshold] \<Rightarrow>
             (case gaussian_prob ar v mean std_dev of Inl _ \<Rightarrow> False | Inr _ \<Rightarrow> True)
         | _ \<Rightarrow> True"
  shows "\<exists>c. fst (contribution ar key v self) = Inr c"
proof -
  from well_formed_entry_cases [OF assms(3)] show ?thesis
  proof
    assume "\<exists>lo hi. entry = [Str ''uniform'', Num lo, Num hi]"
    then show ?thesis using assms(1,2)
      by (auto simp add: contribution_def uniform_prior_def)
  next
    assume "\<exists>mu sigma thr. entry = [Str ''gaussian'', Num mu, Num sigma, Num thr]"
    then obtain mu sigma thr where e: "entry = [Str ''gaussian'', Num mu, Num sigma, Num thr]"
      by blast
    with assms(4) obtain prob where "gaussian_prob ar v (Num mu) (Num sigma) = Inr prob"
      by (auto split: sum.splits)
    then show ?thesis using assms(1,2) e
      by (auto simp add: contribution_def gaussian_prior_def Let_def)
  qed
qed

lemma contribution_value_after_warnings:
  "fst (contribution ar k v (warn_n n self)) = fst (contribution ar k v self)"
proof -
  have "prior (warn_n n self) = prior self" by simp
  from contribution_cong [where ar = ar and k = k and v = v, OF this] show ?thesis by auto
qed

lemma check_prior_loop_sum:
  assumes "map (\<lambda>(k, v). fst (contribution ar k v self)) d = map Inr cs"
  shows "fst (check_prior_loop ar d lp self) = Inr (foldl fl_add lp cs)"
  using assms
proof (induction d arbitrary: lp self cs)
  case Nil
  then show ?case by simp
next
  case (Cons kv d)
  obtain key v where kv: "kv = (key, v)" by (cases kv)
  from Cons.prems kv obtain c cs' where cs: "cs = c # cs'"
    and c: "fst (contribution ar key v self) = Inr c"
    and rest: "map (\<lambda>(k, v). fst (contribution ar k v self)) d = map Inr cs'"
    by (cases cs) auto
  have "prior self = prior self" by simp
  from contribution_cong [where ar = ar and k = key and v = v, OF this] c obtain n where
    n: "contribution ar key v self = (Inr c, warn_n n self)" by auto
  have "map (\<lambda>(k, v). fst (contribution ar k v (warn_n n self))) d = map Inr cs'"
    using rest by (simp add: contribution_value_after_warnings)
  from Cons.IH [OF this, of "fl_add lp c"] show ?case
    using kv n cs by (simp add: check_prior_loop_step del: check_prior_loop.simps(2))
qed

lemma foldl_fl_add_PInf:
  "set cs \<subseteq> {Fin 0, PInf} \<Longrightarrow> lp = Fin 0 \<or> lp = PInf \<Longrightarrow> lp = PInf \<or> PInf \<in> set cs
     \<Longrightarrow> foldl fl_add lp cs = PInf"
proof (induction cs arbitrary: lp)
  case Nil
  then show ?case by simp
next
  case (Cons c cs)
  have c: "c = Fin 0 \<or> c = PInf" using Cons.prems(1) by auto
  have "fl_add lp c = PInf \<or> PInf \<in> set cs"
    using Cons.prems(2,3) c by auto
  moreover have "fl_add lp c = Fin 0 \<or> fl_add lp c = PInf"
    using Cons.prems(2) c by auto
  moreover have "set cs \<subseteq> {Fin 0, PInf}" using Cons.prems(1) by simp
  ultimately show ?case using Cons.IH [of "fl_add lp c"] by simp
qed

text \<open>
  C8, as the code has it. When every key of the parameter dictionary has a recognised,
  well-formed prior entry and the arithmetic of every gaussian entry returns a number
  (it can raise instead, and then \<open>check_prior\<close> raises), every item has a
  contribution, each contribution is \<open>0.0\<close> or positive infinity, and
  \<open>check_prior\<close> returns exactly their sum, added in the order of the dictionary to
  the initial \<open>0.0\<close>. If any single contribution is positive infinity, the total is
  positive infinity whatever the others are. For the empty dictionary the total is
  \<open>0.0\<close>.
\<close>

theorem check_prior_sums_contributions:
  assumes "prior self = Some prior_dict"
    and "well_formed_for prior_dict params_dict"
    and "prob_returns ar prior_dict params_dict"
  shows "(\<exists>cs. map (\<lambda>(key, v). fst (contribution ar key v self)) params_dict = map Inr cs
              \<and> set cs \<subseteq> {Fin 0, PInf}
              \<and> fst (check_prior ar params_dict self) = Inr (foldl fl_add (Fin 0) cs)
              \<and> (PInf \<in> set cs \<longrightarrow> fst (check_prior ar params_dict self) = Inr PInf))
       \<and> fst (check_prior ar [] self) = Inr (Fin 0)"
proof -
  have "\<exists>cs. map (\<lambda>(key, v). fst (contribution ar key v self)) params_dict = map Inr cs"
    using assms(2,3)
  proof (induction params_dict)
    case Nil
    then show ?case by simp
  next
    case (Cons kv d)
    obtain key v where kv: "kv = (key, v)" by (cases kv)
    from Cons.prems(1) kv obtain entry where e: "prior_dict key = Some entry" "well_formed_entry entry"
      by (auto simp add: well_formed_for_def split: option.splits)
    have r: "case entry of
               [tag, mean, std_dev, threshold] \<Rightarrow>
                 (case gaussian_prob ar v mean std_dev of Inl _ \<Rightarrow> False | Inr _ \<Rightarrow> True)
             | _ \<Rightarrow> True"
      using Cons.prems(2) kv e(1) by (simp add: prob_returns_def)
    from well_formed_contribution [OF assms(1) e r] obtain c where
      c: "fst (contribution ar key v self) = Inr c" ..
    from Cons.prems have "well_formed_for prior_dict d" "prob_returns ar prior_dict d"
      by (simp_all add: well_formed_for_def prob_returns_def)
    from Cons.IH [OF this] obtain cs where
      "map (\<lambda>(key, v). fst (contribution ar key v self)) d = map Inr cs" ..
    with c kv have "map (\<lambda>(key, v). fst (contribution ar key v self)) (kv # d) = map Inr (c # cs)"
      by simp
    then show ?case by blast
  qed
  then obtain cs where cs: "map (\<lambda>(key, v). fst (contribution ar key v self)) params_dict = map Inr cs" ..
  have range: "set cs \<subseteq> {Fin 0, PInf}"
  proof
    fix c assume "c \<in> set cs"
    then have "Inr c \<in> set (map (\<lambda>(key, v). fst (contribution ar key v self)) params_dict)"
      unfolding cs by simp
    then obtain key v where "fst (contribution ar key v self) = Inr c" by auto
    from contribution_range [OF this] show "c \<in> {Fin 0, PInf}" by simp
  qed
  have total: "fst (check_prior ar params_dict self) = Inr (foldl fl_add (Fin 0) cs)"
    unfolding check_prior_def by (rule check_prior_loop_sum [OF cs])
  have "PInf \<in> set cs \<longrightarrow> fst (check_prior ar params_dict self) = Inr PInf"
    using total foldl_fl_add_PInf [OF range, of "Fin 0"] by simp
  moreover have "fst (check_prior ar [] self) = Inr (Fin 0)" by (simp add: check_prior_def)
  ultimately show ?thesis using cs range total by blast
qed

theorem check_prior_sums_contributions_witness:
  "prior three_param_pid = Some extended_box_prior
   \<and> well_formed_for extended_box_prior [(''k1'', Fin 0.5), (''k2'', Fin 2), (''k3'', Fin 0)]
   \<and> prob_returns exact_arith extended_box_prior [(''k1'', Fin 0.5), (''k2'', Fin 2), (''k3'', Fin 0)]
   \<and> map (\<lambda>(key, v). fst (contribution exact_arith key v three_param_pid))
         [(''k1'', Fin 0.5), (''k2'', Fin 2), (''k3'', Fin 0)]
       = map Inr [Fin 0, PInf, PInf]
   \<and> fst (check_prior exact_arith [(''k1'', Fin 0.5), (''k2'', Fin 2), (''k3'', Fin 0)]
            three_param_pid) = Inr PInf"
proof -
  let ?d = "[(''k1'', Fin 0.5), (''k2'', Fin 2), (''k3'', Fin 0)]"
  have lt: "1 / sqrt (2 * pi) < 1" by (rule inverse_sqrt_two_pi_less_one)
  have p: "prior three_param_pid = Some extended_box_prior"
    by (simp add: three_param_pid_def init_pid_def)
  have w: "well_formed_for extended_box_prior ?d"
    by (simp add: well_formed_for_def well_formed_entry_def extended_box_prior_def
        unit_box_prior_def)
  have r: "prob_returns exact_arith extended_box_prior ?d"
    by (simp add: prob_returns_def extended_box_prior_def unit_box_prior_def
        gaussian_prob_at_origin)
  have m: "map (\<lambda>(key, v). fst (contribution exact_arith key v three_param_pid)) ?d
       = map Inr [Fin 0, PInf, PInf]"
    using lt
    by (simp add: contribution_def three_param_pid_def init_pid_def extended_box_prior_def
        unit_box_prior_def uniform_prior_def gaussian_prior_def Let_def fl_gt_def
        gaussian_prob_at_origin)
  from check_prior_sums_contributions [OF p w r] obtain cs where
    cs: "map (\<lambda>(key, v). fst (contribution exact_arith key v three_param_pid)) ?d = map Inr cs"
    and t: "PInf \<in> set cs \<longrightarrow> fst (check_prior exact_arith ?d three_param_pid) = Inr PInf"
    by blast
  from cs m have "map Inr cs = (map Inr [Fin 0, PInf, PInf] :: (error + fl) list)" by simp
  then have "cs = [Fin 0, PInf, PInf]" by (auto simp add: map_eq_Cons_conv)
  with t p w r m show ?thesis by simp
qed

text \<open>
  \<open>k1 = 0.5\<close> is inside its bounds and \<open>k2 = 2.0\<close> is outside: the rejected
  parameter contributes positive infinity and the total is positive infinity, not
  negative infinity. By \<open>contribution_range\<close> no contribution is ever negative
  infinity.
\<close>

theorem rejected_parameter_makes_total_positive_infinity:
  "fst (contribution exact_arith ''k1'' (Fin 0.5) two_param_pid) = Inr (Fin 0)
   \<and> fst (contribution exact_arith ''k2'' (Fin 2) two_param_pid) = Inr PInf
   \<and> fst (check_prior exact_arith [(''k1'', Fin 0.5), (''k2'', Fin 2)] two_param_pid) = Inr PInf
   \<and> fst (check_prior exact_arith [(''k1'', Fin 0.5), (''k2'', Fin 2)] two_param_pid) \<noteq> Inr MInf"
  by (simp add: contribution_def check_prior_def two_param_pid_def init_pid_def
      unit_box_prior_def uniform_prior_def fl_gt_def)

section \<open>Prior entries of other parameters\<close>

lemma uniform_prior_agree:
  assumes "prior self = Some p1" and "prior self' = Some p2" and "p1 k = p2 k"
  shows "\<exists>r. uniform_prior k v self = (r, self) \<and> uniform_prior k v self' = (r, self')"
  using assms by (simp add: uniform_prior_def split: option.splits sum.splits)

lemma gaussian_prior_agree:
  assumes "prior self = Some p1" and "prior self' = Some p2" and "p1 k = p2 k"
  shows "\<exists>r n. gaussian_prior ar k v self = (r, warn_n n self)
             \<and> gaussian_prior ar k v self' = (r, warn_n n self')"
proof -
  have "(\<exists>r. gaussian_prior ar k v self = (r, self) \<and> gaussian_prior ar k v self' = (r, self'))
      \<or> (\<exists>r. gaussian_prior ar k v self = (r, emit Warned self)
             \<and> gaussian_prior ar k v self' = (r, emit Warned self'))"
    using assms
    by (simp add: gaussian_prior_def Let_def split: option.splits sum.splits pyval.splits)
  then show ?thesis
    by (metis emit_Warned warn_n_0)
qed

lemma contribution_agree:
  assumes "prior self = Some p1" and "prior self' = Some p2" and "p1 k = p2 k"
  shows "\<exists>r n. contribution ar k v self = (r, warn_n n self)
             \<and> contribution ar k v self' = (r, warn_n n self')"
proof -
  have u: "\<exists>r n. uniform_prior k v self = (r, warn_n n self)
             \<and> uniform_prior k v self' = (r, warn_n n self')"
    using uniform_prior_agree [OF assms, of v] by (metis warn_n_0)
  have e: "\<And>x. \<exists>r n. (x, self) = (r, warn_n n self) \<and> (x, self') = (r, warn_n n self')"
    by (metis warn_n_0)
  show ?thesis
    using assms u gaussian_prior_agree [where ar = ar and v = v, OF assms] e
    by (simp add: contribution_def split: option.splits list.splits)
qed

lemma check_prior_loop_agree:
  assumes "prior self = Some p1" and "prior self' = Some p2"
    and "\<forall>(k, v) \<in> set d. p1 k = p2 k"
  shows "\<exists>r n. check_prior_loop ar d lp self = (r, warn_n n self)
             \<and> check_prior_loop ar d lp self' = (r, warn_n n self')"
  using assms
proof (induction d arbitrary: lp self self')
  case Nil
  show ?case by (metis check_prior_loop.simps(1) warn_n_0)
next
  case (Cons kv d)
  obtain key v where kv: "kv = (key, v)" by (cases kv)
  have k: "p1 key = p2 key" using Cons.prems(3) kv by simp
  from contribution_agree [where ar = ar and v = v, OF Cons.prems(1,2) k] obtain r m where
    c: "contribution ar key v self = (r, warn_n m self)"
       "contribution ar key v self' = (r, warn_n m self')" by blast
  show ?case
  proof (cases r)
    case (Inl e)
    then show ?thesis using kv c
      by (auto simp add: check_prior_loop_step simp del: check_prior_loop.simps(2))
  next
    case (Inr x)
    have p: "prior (warn_n m self) = Some p1" "prior (warn_n m self') = Some p2"
      using Cons.prems(1,2) by simp_all
    have r: "\<forall>(k, v) \<in> set d. p1 k = p2 k" using Cons.prems(3) by simp
    from Cons.IH [OF p r, of "fl_add lp x"] obtain r' n where
      "check_prior_loop ar d (fl_add lp x) (warn_n m self) = (r', warn_n n (warn_n m self))"
      "check_prior_loop ar d (fl_add lp x) (warn_n m self') = (r', warn_n n (warn_n m self'))"
      by blast
    then show ?thesis using kv c Inr
      by (auto simp add: check_prior_loop_step warn_n_warn_n simp del: check_prior_loop.simps(2))
  qed
qed

text \<open>
  C10. The result of \<open>check_prior\<close> depends on the prior dictionary only through the
  entries of the names in the parameter dictionary: for two prior dictionaries that
  agree on every such name, \<open>check_prior\<close> returns the same value (or raises the same
  error) and leaves the same log, whatever the two dictionaries hold for other names.
\<close>

theorem check_prior_ignores_other_entries:
  assumes "\<forall>(key, v) \<in> set params_dict. prior1 key = prior2 key"
  shows "fst (check_prior ar params_dict (self\<lparr>prior := Some prior1\<rparr>))
           = fst (check_prior ar params_dict (self\<lparr>prior := Some prior2\<rparr>))
       \<and> effects (snd (check_prior ar params_dict (self\<lparr>prior := Some prior1\<rparr>)))
           = effects (snd (check_prior ar params_dict (self\<lparr>prior := Some prior2\<rparr>)))"
proof -
  have p: "prior (self\<lparr>prior := Some prior1\<rparr>) = Some prior1"
          "prior (self\<lparr>prior := Some prior2\<rparr>) = Some prior2" by simp_all
  from check_prior_loop_agree [where ar = ar and lp = "Fin 0", OF p assms] show ?thesis
    unfolding check_prior_def by auto
qed

theorem check_prior_ignores_other_entries_witness:
  "unit_box_prior ''k3'' \<noteq> extended_box_prior ''k3''
   \<and> fst (check_prior exact_arith [(''k1'', Fin 0.5), (''k2'', Fin 2)]
            (two_param_pid\<lparr>prior := Some unit_box_prior\<rparr>))
       = fst (check_prior exact_arith [(''k1'', Fin 0.5), (''k2'', Fin 2)]
            (two_param_pid\<lparr>prior := Some extended_box_prior\<rparr>))"
proof -
  have a: "\<forall>(key, v) \<in> set [(''k1'', Fin 0.5), (''k2'', Fin 2)].
             unit_box_prior key = extended_box_prior key"
    by (simp add: extended_box_prior_def)
  have d: "unit_box_prior ''k3'' \<noteq> extended_box_prior ''k3''"
    by (simp add: extended_box_prior_def unit_box_prior_def)
  from check_prior_ignores_other_entries [where ar = exact_arith and self = two_param_pid, OF a] d show ?thesis by simp
qed

section \<open>The frame of a scoring call\<close>

lemma emit_after: "emit ev (self\<lparr>effects := effects self @ xs\<rparr>) = self\<lparr>effects := effects self @ xs @ [ev]\<rparr>"
  by (simp add: emit_def)

lemma debug_prints_after:
  "debug_prints b (self\<lparr>effects := effects self @ xs\<rparr>)
     = self\<lparr>effects := effects self @ xs @ (if b then replicate 4 Printed else [])\<rparr>"
  by (simp add: debug_prints_def emit_def numeral_eq_Suc)

lemma filter_engine_event_prints: "filter engine_event (replicate n Printed) = []"
  by (induction n) simp_all

text \<open>
  C9. A call of \<open>get_likelihood_function\<close>, of either class and on any arguments,
  leaves \<open>params_to_estimate\<close>, the prior and the model reference of the interface as
  they were: the object after the call is the object before it with a longer log. Of
  the new effects, those that reach the engine are an initial part of: data packaging,
  construction of the likelihood object, \<open>set_init_params\<close> with exactly the named
  parameters, \<open>py_log_likelihood\<close>. So the one call that binds anything is the
  binding of the named parameters, and it comes before the likelihood is evaluated.
  The engine receives the model, the data, the initial conditions and the parameter
  dictionary, never the interface object itself.
\<close>

theorem scoring_call_frame:
  "(\<exists>new N. snd (stochastic_get_likelihood_function ar eng_s params_values data tps measurements
                   initial_conditions norm_order N_simulations debug self)
               = self\<lparr>effects := effects self @ new\<rparr>
            \<and> prefix (filter engine_event new)
                 [Packaged N, Constructed initial_conditions,
                  ParamsBound (make_params_dict (params_to_estimate self) params_values),
                  Evaluated])
   \<and> (\<exists>new N. snd (deterministic_get_likelihood_function ar eng_d params_values data tps
                   measurements initial_conditions norm_order debug self)
               = self\<lparr>effects := effects self @ new\<rparr>
            \<and> prefix (filter engine_event new)
                 [Packaged N, Constructed initial_conditions,
                  ParamsBound (make_params_dict (params_to_estimate self) params_values),
                  Evaluated])"
proof -
  let ?d = "make_params_dict (params_to_estimate self) params_values"
  let ?calls = "\<lambda>N. [Packaged N, Constructed initial_conditions, ParamsBound ?d, Evaluated]"
  let ?dbg = "if debug then replicate 4 Printed else []"
  obtain r n where cp: "check_prior ar ?d self = (r, warn_n n self)"
    using check_prior_cong [where ar = ar and self = self and self' = self and d = ?d] by auto
  let ?w = "replicate n Warned"
  have w: "warn_n n self = self\<lparr>effects := effects self @ ?w\<rparr>" by (simp add: warn_n_def)
  have fw: "filter engine_event ?w = []" by (rule filter_engine_event_warnings)
  have fd: "filter engine_event ?dbg = []" by (simp add: filter_engine_event_prints)
  have stoch: "\<exists>new N. snd (stochastic_get_likelihood_function ar eng_s params_values data tps
                   measurements initial_conditions norm_order N_simulations debug self)
               = self\<lparr>effects := effects self @ new\<rparr>
            \<and> prefix (filter engine_event new) (?calls N)"
  proof -
    have "\<exists>N. snd (stochastic_get_likelihood_function ar eng_s params_values data tps
                   measurements initial_conditions norm_order N_simulations debug self)
            \<in> {self\<lparr>effects := effects self @ ?w\<rparr>,
               self\<lparr>effects := effects self @ ?w @ ?dbg @ [Packaged N]\<rparr>,
               self\<lparr>effects := effects self @ ?w @ ?dbg @ [Packaged N, Constructed initial_conditions]\<rparr>,
               self\<lparr>effects := effects self @ ?w @ ?dbg @ [Packaged N, Constructed initial_conditions, ParamsBound ?d]\<rparr>,
               self\<lparr>effects := effects self @ ?w @ ?dbg @ [Packaged N, Constructed initial_conditions, ParamsBound ?d, Evaluated]\<rparr>}"
    proof (cases "\<exists>lp N dims. r = Inr lp \<and> isfinite lp \<and> np_shape data = N # dims")
      case True
      then obtain lp N dims where "r = Inr lp" "isfinite lp" "np_shape data = N # dims"
        by blast
      then show ?thesis
        unfolding stochastic_get_likelihood_function_def Let_def cp w
        by (intro exI [of _ N]) (simp add: emit_after debug_prints_after split: sum.splits)
    next
      case False
      then have "snd (stochastic_get_likelihood_function ar eng_s params_values data tps
                   measurements initial_conditions norm_order N_simulations debug self)
                 = self\<lparr>effects := effects self @ ?w\<rparr>"
        unfolding stochastic_get_likelihood_function_def Let_def cp w
        by (simp split: sum.splits list.splits)
      then show ?thesis by simp
    qed
    then obtain N new where
      s: "snd (stochastic_get_likelihood_function ar eng_s params_values data tps
                   measurements initial_conditions norm_order N_simulations debug self)
            = self\<lparr>effects := effects self @ new\<rparr>"
      and new: "new \<in> {?w, ?w @ ?dbg @ [Packaged N],
                ?w @ ?dbg @ [Packaged N, Constructed initial_conditions],
                ?w @ ?dbg @ [Packaged N, Constructed initial_conditions, ParamsBound ?d],
                ?w @ ?dbg @ [Packaged N, Constructed initial_conditions, ParamsBound ?d, Evaluated]}"
      by auto
    have "prefix (filter engine_event new) (?calls N)"
      using new fw fd by (auto simp add: filter_engine_event_prints)
    with s show ?thesis by blast
  qed
  have det: "\<exists>new N. snd (deterministic_get_likelihood_function ar eng_d params_values data tps
                   measurements initial_conditions norm_order debug self)
               = self\<lparr>effects := effects self @ new\<rparr>
            \<and> prefix (filter engine_event new) (?calls N)"
  proof -
    have "\<exists>N. snd (deterministic_get_likelihood_function ar eng_d params_values data tps
                   measurements initial_conditions norm_order debug self)
            \<in> {self\<lparr>effects := effects self @ ?w\<rparr>,
               self\<lparr>effects := effects self @ ?w @ [Packaged N]\<rparr>,
               self\<lparr>effects := effects self @ ?w @ [Packaged N] @ ?dbg @ [Constructed initial_conditions]\<rparr>,
               self\<lparr>effects := effects self @ ?w @ [Packaged N] @ ?dbg @ [Constructed initial_conditions, ParamsBound ?d]\<rparr>,
               self\<lparr>effects := effects self @ ?w @ [Packaged N] @ ?dbg @ [Constructed initial_conditions, ParamsBound ?d, Evaluated]\<rparr>}"
    proof (cases "\<exists>lp N dims. r = Inr lp \<and> isfinite lp \<and> np_shape data = N # dims")
      case True
      then obtain lp N dims where "r = Inr lp" "isfinite lp" "np_shape data = N # dims"
        by blast
      then show ?thesis
        unfolding deterministic_get_likelihood_function_def Let_def cp w
        by (intro exI [of _ N]) (simp add: emit_after debug_prints_after split: sum.splits)
    next
      case False
      then have "snd (deterministic_get_likelihood_function ar eng_d params_values data tps
                   measurements initial_conditions norm_order debug self)
                 = self\<lparr>effects := effects self @ ?w\<rparr>"
        unfolding deterministic_get_likelihood_function_def Let_def cp w
        by (simp split: sum.splits list.splits)
      then show ?thesis by simp
    qed
    then obtain N new where
      s: "snd (deterministic_get_likelihood_function ar eng_d params_values data tps
                   measurements initial_conditions norm_order debug self)
            = self\<lparr>effects := effects self @ new\<rparr>"
      and new: "new \<in> {?w, ?w @ [Packaged N],
                ?w @ [Packaged N] @ ?dbg @ [Constructed initial_conditions],
                ?w @ [Packaged N] @ ?dbg @ [Constructed initial_conditions, ParamsBound ?d],
                ?w @ [Packaged N] @ ?dbg @ [Constructed initial_conditions, ParamsBound ?d, Evaluated]}"
      by auto
    have "prefix (filter engine_event new) (?calls N)"
      using new fw fd by (auto simp add: filter_engine_event_prints)
    with s show ?thesis by blast
  qed
  show ?thesis using stoch det by blast
qed

end
